theory Spec2Isabelle
  imports Main
begin

section \<open>Strings and configuration (config.py)\<close>

text \<open>
  Python strings are sequences of code points; the model keeps them as their UTF-8 bytes.
  UTF-8 is injective, so equality and list membership, the only string operations the
  modelled code uses, agree with Python's. The Cyrillic literals of the source are
  spelled out byte by byte, under transliterated names: \<open>str_Kuhnya\<close> is the kitchen and
  \<open>str_Bar\<close> the bar main category, \<open>str_Salaty\<close> the salads category.
\<close>

definition str_Kuhnya :: string where
  "str_Kuhnya = [CHR 0xD0, CHR 0x9A, CHR 0xD1, CHR 0x83, CHR 0xD1, CHR 0x85, CHR 0xD0, CHR 0xBD,
     CHR 0xD1, CHR 0x8F]"

definition str_Bar :: string where
  "str_Bar = [CHR 0xD0, CHR 0x91, CHR 0xD0, CHR 0xB0, CHR 0xD1, CHR 0x80]"

definition str_Zakuski :: string where
  "str_Zakuski = [CHR 0xD0, CHR 0x97, CHR 0xD0, CHR 0xB0, CHR 0xD0, CHR 0xBA, CHR 0xD1, CHR 0x83,
     CHR 0xD1, CHR 0x81, CHR 0xD0, CHR 0xBA, CHR 0xD0, CHR 0xB8]"

definition str_Garniry :: string where
  "str_Garniry = [CHR 0xD0, CHR 0x93, CHR 0xD0, CHR 0xB0, CHR 0xD1, CHR 0x80, CHR 0xD0, CHR 0xBD,
     CHR 0xD0, CHR 0xB8, CHR 0xD1, CHR 0x80, CHR 0xD1, CHR 0x8B]"

definition str_Goryachee :: string where
  "str_Goryachee = [CHR 0xD0, CHR 0x93, CHR 0xD0, CHR 0xBE, CHR 0xD1, CHR 0x80, CHR 0xD1, CHR 0x8F,
     CHR 0xD1, CHR 0x87, CHR 0xD0, CHR 0xB5, CHR 0xD0, CHR 0xB5]"

definition str_Deserty :: string where
  "str_Deserty = [CHR 0xD0, CHR 0x94, CHR 0xD0, CHR 0xB5, CHR 0xD1, CHR 0x81, CHR 0xD0, CHR 0xB5,
     CHR 0xD1, CHR 0x80, CHR 0xD1, CHR 0x82, CHR 0xD1, CHR 0x8B]"

definition str_Salaty :: string where
  "str_Salaty = [CHR 0xD0, CHR 0xA1, CHR 0xD0, CHR 0xB0, CHR 0xD0, CHR 0xBB, CHR 0xD0, CHR 0xB0,
     CHR 0xD1, CHR 0x82, CHR 0xD1, CHR 0x8B]"

definition str_Kokteili :: string where
  "str_Kokteili = [CHR 0xD0, CHR 0x9A, CHR 0xD0, CHR 0xBE, CHR 0xD0, CHR 0xBA, CHR 0xD1, CHR 0x82,
     CHR 0xD0, CHR 0xB5, CHR 0xD0, CHR 0xB9, CHR 0xD0, CHR 0xBB, CHR 0xD0, CHR 0xB8]"

definition str_Alkogol :: string where
  "str_Alkogol = [CHR 0xD0, CHR 0x90, CHR 0xD0, CHR 0xBB, CHR 0xD0, CHR 0xBA, CHR 0xD0, CHR 0xBE,
     CHR 0xD0, CHR 0xB3, CHR 0xD0, CHR 0xBE, CHR 0xD0, CHR 0xBB, CHR 0xD1, CHR 0x8C]"

definition str_Pivo :: string where
  "str_Pivo = [CHR 0xD0, CHR 0x9F, CHR 0xD0, CHR 0xB8, CHR 0xD0, CHR 0xB2, CHR 0xD0, CHR 0xBE]"

definition str_Limonady :: string where
  "str_Limonady = [CHR 0xD0, CHR 0x9B, CHR 0xD0, CHR 0xB8, CHR 0xD0, CHR 0xBC, CHR 0xD0, CHR 0xBE,
     CHR 0xD0, CHR 0xBD, CHR 0xD0, CHR 0xB0, CHR 0xD0, CHR 0xB4, CHR 0xD1, CHR 0x8B]"

definition str_Chai :: string where
  "str_Chai = [CHR 0xD0, CHR 0xA7, CHR 0xD0, CHR 0xB0, CHR 0xD0, CHR 0xB9]"

definition str_Salat_Cezar :: string where
  "str_Salat_Cezar = [CHR 0xD0, CHR 0xA1, CHR 0xD0, CHR 0xB0, CHR 0xD0, CHR 0xBB, CHR 0xD0, CHR 0xB0,
     CHR 0xD1, CHR 0x82, CHR 0x20, CHR 0xD0, CHR 0xA6, CHR 0xD0, CHR 0xB5, CHR 0xD0, CHR 0xB7,
     CHR 0xD0, CHR 0xB0, CHR 0xD1, CHR 0x80, CHR 0xD1, CHR 0x8C]"

text \<open>\<^verbatim>\<open>TABLE_COUNT = 11\<close>\<close>

definition TABLE_COUNT :: int where
  "TABLE_COUNT = 11"

text \<open>
  \<^verbatim>\<open>MENU_CATEGORIES\<close> is a dict literal; Python iterates it in the order it is written,
  so the model is an association list in that order.
\<close>

definition MENU_CATEGORIES :: "(string \<times> string list) list" where
  "MENU_CATEGORIES =
     [(str_Kuhnya, [str_Zakuski, str_Garniry, str_Goryachee, str_Deserty, str_Salaty]),
      (str_Bar, [str_Kokteili, str_Alkogol, str_Pivo, str_Limonady, str_Chai])]"

section \<open>JSON values and the persisted files\<close>

text \<open>
  What \<^verbatim>\<open>json.load\<close> returns and \<^verbatim>\<open>json.dump\<close> accepts. A Python dict is a finite map
  from keys to values, compared without regard to the order of its keys, hence a HOL map.
\<close>

datatype json =
    JNull
  | JBool bool
  | JInt int
  | JStr string
  | JList "json list"
  | JObj "string \<Rightarrow> json option"

text \<open>
  A data file is absent, holds text that \<^verbatim>\<open>json.load\<close> rejects, or holds a JSON value.
\<close>

datatype data_file = Absent | Corrupt | Content json

text \<open>
  The exceptions of the modelled code. \<open>KeyError\<close>: \<^verbatim>\<open>data["k"]\<close> on a dict without the key.
  \<open>TypeError\<close>: subscripting or iterating a value that is no dict or list, and \<^verbatim>\<open>int(None)\<close>.
  \<open>ValueError\<close>: raised by \<^verbatim>\<open>create_order\<close> for a table number out of range.
  \<open>AttributeError\<close>: \<^verbatim>\<open>None.lower()\<close>, and \<^verbatim>\<open>get\<close> on a value that is no dict.
\<close>

datatype py_error = KeyError | TypeError | ValueError | AttributeError

text \<open>\<^verbatim>\<open>data["k"]\<close>\<close>

definition subscript :: "json \<Rightarrow> string \<Rightarrow> py_error + json" where
  "subscript data k =
     (case data of
        JObj d \<Rightarrow> (case d k of None \<Rightarrow> Inl KeyError | Some v \<Rightarrow> Inr v)
      | _ \<Rightarrow> Inl TypeError)"

text \<open>
  \<^verbatim>\<open>data.get("k")\<close>: \<^verbatim>\<open>None\<close> for a missing key; a value that is no dict has no attribute
  \<^verbatim>\<open>get\<close>.
\<close>

definition dict_get :: "json \<Rightarrow> string \<Rightarrow> py_error + json" where
  "dict_get data k =
     (case data of
        JObj d \<Rightarrow> (case d k of None \<Rightarrow> Inr JNull | Some v \<Rightarrow> Inr v)
      | _ \<Rightarrow> Inl AttributeError)"

text \<open>
  The classes of the source carry type hints (\<^verbatim>\<open>id: int\<close>, \<^verbatim>\<open>name: str\<close>, ...) that Python
  does not enforce; the records of the model are typed by them. A persisted field holding a
  value of another type is outside the model: the readers below answer \<open>TypeError\<close> for it,
  where Python would build an object with a wrongly typed attribute.
\<close>

definition as_int :: "json \<Rightarrow> py_error + int" where
  "as_int v = (case v of JInt i \<Rightarrow> Inr i | _ \<Rightarrow> Inl TypeError)"

definition as_str :: "json \<Rightarrow> py_error + string" where
  "as_str v = (case v of JStr s \<Rightarrow> Inr s | _ \<Rightarrow> Inl TypeError)"

definition as_bool :: "json \<Rightarrow> py_error + bool" where
  "as_bool v = (case v of JBool b \<Rightarrow> Inr b | _ \<Rightarrow> Inl TypeError)"

definition as_opt_str :: "json \<Rightarrow> py_error + string option" where
  "as_opt_str v = (case v of JNull \<Rightarrow> Inr None | JStr s \<Rightarrow> Inr (Some s) | _ \<Rightarrow> Inl TypeError)"

text \<open>Sequencing of computations that may raise: the first exception ends the computation.\<close>

definition bind :: "py_error + 'a \<Rightarrow> ('a \<Rightarrow> py_error + 'b) \<Rightarrow> py_error + 'b" where
  "bind m f = (case m of Inl e \<Rightarrow> Inl e | Inr x \<Rightarrow> f x)"

text \<open>A list comprehension whose body may raise.\<close>

fun map_raise :: "('a \<Rightarrow> py_error + 'b) \<Rightarrow> 'a list \<Rightarrow> py_error + 'b list" where
  "map_raise f [] = Inr []"
| "map_raise f (x # xs) = bind (f x) (\<lambda>y. bind (map_raise f xs) (\<lambda>ys. Inr (y # ys)))"

text \<open>\<^verbatim>\<open>max(xs, default=d)\<close>\<close>

fun py_max :: "int list \<Rightarrow> int \<Rightarrow> int" where
  "py_max [] d = d"
| "py_max (x # xs) d = fold max xs x"

section \<open>Menu items and the catalog (models/menu.py)\<close>

text \<open>
  Class \<^verbatim>\<open>MenuItem\<close>: fields \<^verbatim>\<open>id\<close>, \<^verbatim>\<open>name\<close>, \<^verbatim>\<open>category\<close>, \<^verbatim>\<open>main_category\<close>. The field names
  carry a prefix since \<^verbatim>\<open>id\<close> is a constant of HOL and \<^verbatim>\<open>Order\<close> has an \<^verbatim>\<open>id\<close> too.
\<close>

record MenuItem =
  mi_id :: int
  mi_name :: string
  mi_category :: string
  mi_main_category :: string

text \<open>
  \<^verbatim>\<open>_determine_main_category\<close>: the first main category, in the order of the dict, whose
  list of subcategories holds the category; the kitchen one (\<open>str_Kuhnya\<close>) when none does.
\<close>

fun determine_loop :: "(string \<times> string list) list \<Rightarrow> string \<Rightarrow> string" where
  "determine_loop [] category = str_Kuhnya"
| "determine_loop ((main_cat, subcats) # rest) category =
     (if category \<in> set subcats then main_cat else determine_loop rest category)"

definition determine_main_category :: "string \<Rightarrow> string" where
  "determine_main_category category = determine_loop MENU_CATEGORIES category"

text \<open>\<^verbatim>\<open>MenuItem.__init__\<close>, with \<^verbatim>\<open>main_category = None\<close> as \<open>None\<close>.\<close>

definition MenuItem_init :: "int \<Rightarrow> string \<Rightarrow> string \<Rightarrow> string option \<Rightarrow> MenuItem" where
  "MenuItem_init i n c main_category =
     \<lparr>mi_id = i, mi_name = n, mi_category = c,
      mi_main_category =
        (case main_category of None \<Rightarrow> determine_main_category c | Some m \<Rightarrow> m)\<rparr>"

definition MenuItem_to_dict :: "MenuItem \<Rightarrow> json" where
  "MenuItem_to_dict item =
     JObj (Map.empty(''id'' \<mapsto> JInt (mi_id item),
                     ''name'' \<mapsto> JStr (mi_name item),
                     ''category'' \<mapsto> JStr (mi_category item),
                     ''main_category'' \<mapsto> JStr (mi_main_category item)))"

definition MenuItem_from_dict :: "json \<Rightarrow> py_error + MenuItem" where
  "MenuItem_from_dict data =
     bind (dict_get data ''main_category'') (\<lambda>mc.
     bind (subscript data ''id'') (\<lambda>i.
     bind (subscript data ''name'') (\<lambda>n.
     bind (subscript data ''category'') (\<lambda>c.
     bind (as_opt_str mc) (\<lambda>main_category.
     bind (as_int i) (\<lambda>i'.
     bind (as_str n) (\<lambda>n'.
     bind (as_str c) (\<lambda>c'.
       Inr (MenuItem_init i' n' c' main_category)))))))))"

text \<open>
  Class \<^verbatim>\<open>MenuManager\<close>: the list \<^verbatim>\<open>menu_items\<close>, and the file at \<^verbatim>\<open>MENU_DATA_PATH\<close>
  that \<^verbatim>\<open>save_menu\<close> rewrites. Writes are taken to succeed (a failing write is caught and
  logged by the source and leaves the list as it is).
\<close>

record MenuManager =
  menu_items :: "MenuItem list"
  menu_file :: data_file

definition save_menu :: "MenuManager \<Rightarrow> MenuManager" where
  "save_menu m = m\<lparr>menu_file := Content (JList (map MenuItem_to_dict (menu_items m)))\<rparr>"

text \<open>\<^verbatim>\<open>MenuManager.add_item\<close>: returns the new item and the manager after the call.\<close>

definition add_item ::
  "MenuManager \<Rightarrow> string \<Rightarrow> string \<Rightarrow> string option \<Rightarrow> MenuItem \<times> MenuManager" where
  "add_item m n c main_category =
     (let new_id = py_max (map mi_id (menu_items m)) 0 + 1;
          item = MenuItem_init new_id n c main_category
      in (item, save_menu (m\<lparr>menu_items := menu_items m @ [item]\<rparr>)))"

text \<open>
  The loop of \<^verbatim>\<open>MenuManager.delete_item\<close>: the list without the first item of the given
  id, or \<open>None\<close> when the loop ends without finding one.
\<close>

fun delete_loop :: "int \<Rightarrow> MenuItem list \<Rightarrow> MenuItem list option" where
  "delete_loop item_id [] = None"
| "delete_loop item_id (item # rest) =
     (if mi_id item = item_id then Some rest
      else map_option ((#) item) (delete_loop item_id rest))"

definition delete_item :: "MenuManager \<Rightarrow> int \<Rightarrow> bool \<times> MenuManager" where
  "delete_item m item_id =
     (case delete_loop item_id (menu_items m) of
        Some items' \<Rightarrow> (True, save_menu (m\<lparr>menu_items := items'\<rparr>))
      | None \<Rightarrow> (False, m))"

definition get_item_by_id :: "MenuManager \<Rightarrow> int \<Rightarrow> MenuItem option" where
  "get_item_by_id m item_id = find (\<lambda>item. mi_id item = item_id) (menu_items m)"

section \<open>Orders and the order store (models/orders.py)\<close>

text \<open>Class \<^verbatim>\<open>OrderItem\<close>: one line of an order.\<close>

record OrderItem =
  oi_menu_item :: MenuItem
  oi_quantity :: int

definition OrderItem_to_dict :: "OrderItem \<Rightarrow> json" where
  "OrderItem_to_dict order_item =
     JObj (Map.empty(''menu_item'' \<mapsto> MenuItem_to_dict (oi_menu_item order_item),
                     ''quantity'' \<mapsto> JInt (oi_quantity order_item)))"

definition OrderItem_from_dict :: "json \<Rightarrow> py_error + OrderItem" where
  "OrderItem_from_dict data =
     bind (subscript data ''menu_item'') (\<lambda>mi.
     bind (MenuItem_from_dict mi) (\<lambda>menu_item.
     bind (subscript data ''quantity'') (\<lambda>q.
     bind (as_int q) (\<lambda>quantity.
       Inr \<lparr>oi_menu_item = menu_item, oi_quantity = quantity\<rparr>))))"

text \<open>Class \<^verbatim>\<open>Order\<close>.\<close>

record Order =
  o_id :: int
  o_table_number :: int
  o_items :: "OrderItem list"
  o_timestamp :: string
  o_is_active :: bool

text \<open>
  \<^verbatim>\<open>Order.__init__\<close>. The first argument is what \<^verbatim>\<open>datetime.now().isoformat()\<close> returns at
  the call. \<^verbatim>\<open>items or []\<close> and \<^verbatim>\<open>timestamp or now\<close> replace \<^verbatim>\<open>None\<close> and the empty value alike.
\<close>

definition Order_init ::
  "string \<Rightarrow> int \<Rightarrow> int \<Rightarrow> OrderItem list option \<Rightarrow> string option \<Rightarrow> bool \<Rightarrow> Order" where
  "Order_init now i table_number items timestamp is_active =
     \<lparr>o_id = i,
      o_table_number = table_number,
      o_items = (case items of None \<Rightarrow> [] | Some xs \<Rightarrow> if xs = [] then [] else xs),
      o_timestamp = (case timestamp of None \<Rightarrow> now | Some ts \<Rightarrow> if ts = [] then now else ts),
      o_is_active = is_active\<rparr>"

definition Order_to_dict :: "Order \<Rightarrow> json" where
  "Order_to_dict order =
     JObj (Map.empty(''id'' \<mapsto> JInt (o_id order),
                     ''table_number'' \<mapsto> JInt (o_table_number order),
                     ''items'' \<mapsto> JList (map OrderItem_to_dict (o_items order)),
                     ''timestamp'' \<mapsto> JStr (o_timestamp order),
                     ''is_active'' \<mapsto> JBool (o_is_active order)))"

text \<open>
  The comprehension \<^verbatim>\<open>[OrderItem.from_dict(item) for item in data["items"]]\<close>. Iterating a
  string yields its characters and iterating a dict its keys, on each of which
  \<^verbatim>\<open>OrderItem.from_dict\<close> raises \<^verbatim>\<open>TypeError\<close>; so only an empty one passes, as no lines.
\<close>

definition items_from :: "json \<Rightarrow> py_error + OrderItem list" where
  "items_from v =
     (case v of
        JList ds \<Rightarrow> map_raise OrderItem_from_dict ds
      | JStr s \<Rightarrow> if s = [] then Inr [] else Inl TypeError
      | JObj d \<Rightarrow> if dom d = {} then Inr [] else Inl TypeError
      | _ \<Rightarrow> Inl TypeError)"

definition Order_from_dict :: "string \<Rightarrow> json \<Rightarrow> py_error + Order" where
  "Order_from_dict now data =
     bind (subscript data ''items'') (\<lambda>its.
     bind (items_from its) (\<lambda>items.
     bind (subscript data ''id'') (\<lambda>i.
     bind (subscript data ''table_number'') (\<lambda>t.
     bind (subscript data ''timestamp'') (\<lambda>ts.
     bind (subscript data ''is_active'') (\<lambda>a.
     bind (as_int i) (\<lambda>i'.
     bind (as_int t) (\<lambda>t'.
     bind (as_opt_str ts) (\<lambda>timestamp.
     bind (as_bool a) (\<lambda>is_active.
       Inr (Order_init now i' t' (Some items) timestamp is_active)))))))))))"

text \<open>
  \<^verbatim>\<open>Order.add_item\<close>. The loop: the lines with the quantity of the first line of that menu
  item id raised, or \<open>None\<close> when no line has the id; then the new line is appended.
\<close>

fun add_item_loop :: "OrderItem list \<Rightarrow> MenuItem \<Rightarrow> int \<Rightarrow> OrderItem list option" where
  "add_item_loop [] menu_item quantity = None"
| "add_item_loop (order_item # rest) menu_item quantity =
     (if mi_id (oi_menu_item order_item) = mi_id menu_item
      then Some (order_item\<lparr>oi_quantity := oi_quantity order_item + quantity\<rparr> # rest)
      else map_option ((#) order_item) (add_item_loop rest menu_item quantity))"

definition Order_add_item :: "Order \<Rightarrow> MenuItem \<Rightarrow> int \<Rightarrow> Order" where
  "Order_add_item order menu_item quantity =
     (case add_item_loop (o_items order) menu_item quantity of
        Some items' \<Rightarrow> order\<lparr>o_items := items'\<rparr>
      | None \<Rightarrow>
          order\<lparr>o_items := o_items order @ [\<lparr>oi_menu_item = menu_item, oi_quantity = quantity\<rparr>]\<rparr>)"

text \<open>
  Class \<^verbatim>\<open>OrderManager\<close>: the list \<^verbatim>\<open>orders\<close>, and the file at \<^verbatim>\<open>ORDERS_DATA_PATH\<close> that
  \<^verbatim>\<open>save_orders\<close> rewrites (writes are taken to succeed, as for the menu).
\<close>

record OrderManager =
  orders :: "Order list"
  orders_file :: data_file

definition save_orders :: "OrderManager \<Rightarrow> OrderManager" where
  "save_orders m = m\<lparr>orders_file := Content (JList (map Order_to_dict (orders m)))\<rparr>"

text \<open>
  \<^verbatim>\<open>load_orders\<close>. Any exception while reading ends in \<^verbatim>\<open>self.orders = []\<close>. The clock is
  passed once: it is only read for a record whose timestamp is null or empty.
\<close>

definition load_orders :: "string \<Rightarrow> OrderManager \<Rightarrow> OrderManager" where
  "load_orders now m =
     (case orders_file m of
        Absent \<Rightarrow> save_orders (m\<lparr>orders := []\<rparr>)
      | Corrupt \<Rightarrow> m\<lparr>orders := []\<rparr>
      | Content orders_data \<Rightarrow>
          (case orders_data of
             JList ds \<Rightarrow>
               (case map_raise (Order_from_dict now) ds of
                  Inr loaded \<Rightarrow> m\<lparr>orders := filter o_is_active loaded\<rparr>
                | Inl e \<Rightarrow> m\<lparr>orders := []\<rparr>)
           | _ \<Rightarrow> save_orders (m\<lparr>orders := []\<rparr>)))"

text \<open>\<^verbatim>\<open>OrderManager.__init__\<close>, on the data file as it is found at start.\<close>

definition OrderManager_init :: "string \<Rightarrow> data_file \<Rightarrow> OrderManager" where
  "OrderManager_init now f = load_orders now \<lparr>orders = [], orders_file = f\<rparr>"

definition get_order_by_id :: "OrderManager \<Rightarrow> int \<Rightarrow> Order option" where
  "get_order_by_id m order_id = find (\<lambda>order. o_id order = order_id) (orders m)"

definition get_active_orders :: "OrderManager \<Rightarrow> Order list" where
  "get_active_orders m = filter o_is_active (orders m)"

definition get_table_active_order :: "OrderManager \<Rightarrow> int \<Rightarrow> Order option" where
  "get_table_active_order m table_number =
     find (\<lambda>order. o_table_number order = table_number \<and> o_is_active order) (orders m)"

text \<open>
  \<^verbatim>\<open>create_order\<close>: raises \<^verbatim>\<open>ValueError\<close>, or returns the order and the manager after the call.
\<close>

definition create_order ::
  "string \<Rightarrow> OrderManager \<Rightarrow> int \<Rightarrow> py_error + Order \<times> OrderManager" where
  "create_order now m table_number =
     (if \<not> (1 \<le> table_number \<and> table_number \<le> TABLE_COUNT) then Inl ValueError
      else
        (case find (\<lambda>order. o_table_number order = table_number \<and> o_is_active order) (orders m) of
           Some order \<Rightarrow> Inr (order, m)
         | None \<Rightarrow>
             (let new_id = py_max (map o_id (orders m)) 0 + 1;
                  order = Order_init now new_id table_number None None True
              in Inr (order, save_orders (m\<lparr>orders := orders m @ [order]\<rparr>)))))"

text \<open>
  The orders are objects shared between the list and whoever holds a reference.
  \<^verbatim>\<open>get_order_by_id\<close> returns the first order of the list with the id, so an assignment
  through that reference changes exactly that element of the list.
\<close>

fun update_order :: "int \<Rightarrow> (Order \<Rightarrow> Order) \<Rightarrow> Order list \<Rightarrow> Order list" where
  "update_order order_id f [] = []"
| "update_order order_id f (order # rest) =
     (if o_id order = order_id then f order # rest
      else order # update_order order_id f rest)"

text \<open>
  \<^verbatim>\<open>close_order\<close>: the order is marked inactive, the list is saved with it, and only then
  the inactive orders leave the list.
\<close>

definition close_order :: "OrderManager \<Rightarrow> int \<Rightarrow> bool \<times> OrderManager" where
  "close_order m order_id =
     (case get_order_by_id m order_id of
        Some order \<Rightarrow>
          (let m1 = m\<lparr>orders := update_order order_id (\<lambda>ord. ord\<lparr>o_is_active := False\<rparr>) (orders m)\<rparr>;
               m2 = save_orders m1
           in (True, m2\<lparr>orders := filter o_is_active (orders m2)\<rparr>))
      | None \<Rightarrow> (False, m))"

text \<open>
  The spec's \<^verbatim>\<open>addLine\<close> has no method of its own in the source: it is the store part of
  \<^verbatim>\<open>add_item_with_quantity\<close> (order\_handlers.py), \<^verbatim>\<open>order = get_order_by_id(order_id)\<close>,
  \<^verbatim>\<open>order.add_item(item, quantity)\<close>, \<^verbatim>\<open>save_orders()\<close>, which does nothing for an unknown id.
\<close>

definition add_line :: "OrderManager \<Rightarrow> int \<Rightarrow> MenuItem \<Rightarrow> int \<Rightarrow> OrderManager" where
  "add_line m order_id item quantity =
     (case get_order_by_id m order_id of
        Some order \<Rightarrow>
          save_orders
            (m\<lparr>orders := update_order order_id (\<lambda>ord. Order_add_item ord item quantity) (orders m)\<rparr>)
      | None \<Rightarrow> m)"

text \<open>
  The operations on the order store, and a run of them. \<open>Restart\<close> is a new process:
  \<^verbatim>\<open>OrderManager()\<close> built again on the file the previous one left. A \<^verbatim>\<open>create_order\<close> that
  raises leaves the store as it is.
\<close>

datatype store_op =
    CreateOrder string int
  | AddLine int MenuItem int
  | CloseOrder int
  | Restart string

fun step :: "OrderManager \<Rightarrow> store_op \<Rightarrow> OrderManager" where
  "step m (CreateOrder now table_number) =
     (case create_order now m table_number of Inl e \<Rightarrow> m | Inr (order, m') \<Rightarrow> m')"
| "step m (AddLine order_id item quantity) = add_line m order_id item quantity"
| "step m (CloseOrder order_id) = snd (close_order m order_id)"
| "step m (Restart now) = OrderManager_init now (orders_file m)"

definition run :: "OrderManager \<Rightarrow> store_op list \<Rightarrow> OrderManager" where
  "run m ops = foldl step m ops"

text \<open>The number of active orders of a table.\<close>

definition active_count :: "OrderManager \<Rightarrow> int \<Rightarrow> nat" where
  "active_count m t =
     length (filter (\<lambda>order. o_is_active order \<and> o_table_number order = t) (orders m))"

text \<open>
  What reading back a saved order yields: the order itself, but for an empty timestamp, which
  \<^verbatim>\<open>Order.__init__\<close> replaces by the time of reading.
\<close>

definition stamp :: "string \<Rightarrow> Order \<Rightarrow> Order" where
  "stamp now x = x\<lparr>o_timestamp := if o_timestamp x = [] then now else o_timestamp x\<rparr>"

text \<open>
  The persisted shapes of the spec (section 6). A menu record:
  \<^verbatim>\<open>{id: int, name: string, category: string, main_category: string}\<close>; an order record:
  \<^verbatim>\<open>{id: int, table_number: int, items: [{menu_item: <menu record>, quantity: int}],
  timestamp: ISO-8601 string, is_active: bool}\<close>.
\<close>

definition menu_record :: "int \<Rightarrow> string \<Rightarrow> string \<Rightarrow> string \<Rightarrow> json" where
  "menu_record i n c mc =
     JObj (Map.empty(''id'' \<mapsto> JInt i, ''name'' \<mapsto> JStr n, ''category'' \<mapsto> JStr c,
                     ''main_category'' \<mapsto> JStr mc))"

definition line_record :: "(int \<times> string \<times> string \<times> string) \<times> int \<Rightarrow> json" where
  "line_record l =
     (case l of ((i, n, c, mc), q) \<Rightarrow>
        JObj (Map.empty(''menu_item'' \<mapsto> menu_record i n c mc, ''quantity'' \<mapsto> JInt q)))"

definition order_record ::
  "int \<Rightarrow> int \<Rightarrow> ((int \<times> string \<times> string \<times> string) \<times> int) list \<Rightarrow> string \<Rightarrow> bool \<Rightarrow> json" where
  "order_record i t ls ts a =
     JObj (Map.empty(''id'' \<mapsto> JInt i, ''table_number'' \<mapsto> JInt t,
                     ''items'' \<mapsto> JList (map line_record ls),
                     ''timestamp'' \<mapsto> JStr ts, ''is_active'' \<mapsto> JBool a))"

text \<open>
  The invariant of the order list that the store keeps: no two orders share an id, and no two
  active orders share a table.
\<close>

definition store_inv :: "Order list \<Rightarrow> bool" where
  "store_inv os \<longleftrightarrow>
     distinct (map o_id os) \<and> distinct (map o_table_number (filter o_is_active os))"

text \<open>
  The invariant of a store and its file together: the file holds a saved list of orders, and
  both that list and the list in memory satisfy \<open>store_inv\<close>.
\<close>

definition reach_inv :: "OrderManager \<Rightarrow> bool" where
  "reach_inv m \<longleftrightarrow>
     store_inv (orders m) \<and>
     (\<exists>os. orders_file m = Content (JList (map Order_to_dict os)) \<and> store_inv os)"

section \<open>The quantity step of the order-taking conversation (handlers/order\_handlers.py)\<close>

text \<open>The button texts the handlers compare the message with, as UTF-8 bytes.\<close>

definition str_other_quantity :: string where
  "str_other_quantity = [CHR 0xD0, CHR 0x94, CHR 0xD1, CHR 0x80, CHR 0xD1, CHR 0x83, CHR 0xD0,
     CHR 0xB3, CHR 0xD0, CHR 0xBE, CHR 0xD0, CHR 0xB5, CHR 0x20, CHR 0xD0, CHR 0xBA, CHR 0xD0,
     CHR 0xBE, CHR 0xD0, CHR 0xBB, CHR 0xD0, CHR 0xB8, CHR 0xD1, CHR 0x87, CHR 0xD0, CHR 0xB5,
     CHR 0xD1, CHR 0x81, CHR 0xD1, CHR 0x82, CHR 0xD0, CHR 0xB2, CHR 0xD0, CHR 0xBE]"

definition str_back :: string where
  "str_back = [CHR 0xF0, CHR 0x9F, CHR 0x94, CHR 0x99, CHR 0x20, CHR 0xD0, CHR 0x9D, CHR 0xD0,
     CHR 0xB0, CHR 0xD0, CHR 0xB7, CHR 0xD0, CHR 0xB0, CHR 0xD0, CHR 0xB4]"

definition str_cancel :: string where
  "str_cancel = [CHR 0xF0, CHR 0x9F, CHR 0x94, CHR 0x99, CHR 0x20, CHR 0xD0, CHR 0x9E, CHR 0xD1,
     CHR 0x82, CHR 0xD0, CHR 0xBC, CHR 0xD0, CHR 0xB5, CHR 0xD0, CHR 0xBD, CHR 0xD0, CHR 0xB0]"

text \<open>Class \<^verbatim>\<open>OrderStates\<close>.\<close>

datatype OrderStates =
    selecting_table
  | selecting_main_category
  | selecting_category
  | selecting_menu_item
  | entering_quantity
  | viewing_order
  | managing_order
  | confirm_close

text \<open>
  The \<^verbatim>\<open>FSMContext\<close> of a session: its state (\<open>None\<close> once cleared) and its data dict.
\<close>

record session =
  fsm_state :: "OrderStates option"
  fsm_data :: "string \<Rightarrow> json option"

text \<open>
  \<^verbatim>\<open>data.get(k)\<close>, read as an id or as a category. The handlers store integers under
  \<^verbatim>\<open>current_order_id\<close> and \<^verbatim>\<open>current_item_id\<close> and strings under \<^verbatim>\<open>current_category\<close>; a missing
  key gives \<^verbatim>\<open>None\<close>, which equals no id and has no \<^verbatim>\<open>lower()\<close>.
\<close>

definition data_int :: "(string \<Rightarrow> json option) \<Rightarrow> string \<Rightarrow> int option" where
  "data_int d k = (case d k of Some (JInt i) \<Rightarrow> Some i | _ \<Rightarrow> None)"

definition data_str :: "(string \<Rightarrow> json option) \<Rightarrow> string \<Rightarrow> string option" where
  "data_str d k = (case d k of Some (JStr s) \<Rightarrow> Some s | _ \<Rightarrow> None)"

text \<open>What a handler sees and changes: the session and the two singleton stores.\<close>

record world =
  ses :: session
  order_manager :: OrderManager
  menu_manager :: MenuManager

definition set_state :: "world \<Rightarrow> OrderStates \<Rightarrow> world" where
  "set_state w s = w\<lparr>ses := (ses w)\<lparr>fsm_state := Some s\<rparr>\<rparr>"

text \<open>
  The answers of the modelled handlers, by kind; their wording and the layout of the
  keyboards are presentation. \<open>AskNumber\<close>: the request to type a number, with a back button.
  \<open>ItemList c\<close>: the items of category \<open>c\<close> to choose from. \<open>BadQuantity\<close>: the request for a
  correct positive number, with the quantity keyboard again. \<open>AddFailed\<close>: the error message
  of \<^verbatim>\<open>add_item_with_quantity\<close>, with the main keyboard. \<open>Added n q\<close>: the confirmation that \<open>q\<close>
  of item \<open>n\<close> were added, with the main categories to choose from.
\<close>

datatype reply =
    AskNumber
  | ItemList "string option"
  | BadQuantity
  | AddFailed
  | Added string int

text \<open>
  \<^verbatim>\<open>back_to_items\<close>. \<^verbatim>\<open>get_menu_items_by_category(category)\<close> calls \<^verbatim>\<open>category.lower()\<close> once for
  each item of the menu, so a session without a category raises \<^verbatim>\<open>AttributeError\<close> unless the
  menu is empty.
\<close>

definition back_to_items :: "world \<Rightarrow> py_error + reply \<times> world" where
  "back_to_items w =
     (let category = data_str (fsm_data (ses w)) ''current_category''
      in if category = None \<and> menu_items (menu_manager w) \<noteq> [] then Inl AttributeError
         else Inr (ItemList category, set_state w selecting_menu_item))"

text \<open>
  The first lines of \<^verbatim>\<open>add_item_with_quantity\<close>: the order and the menu item that the ids
  kept in the session stand for, \<open>None\<close> when the id is missing or nothing has it.
\<close>

definition session_order :: "world \<Rightarrow> Order option" where
  "session_order w =
     (case data_int (fsm_data (ses w)) ''current_order_id'' of
        None \<Rightarrow> None
      | Some order_id \<Rightarrow> get_order_by_id (order_manager w) order_id)"

definition session_item :: "world \<Rightarrow> MenuItem option" where
  "session_item w =
     (case data_int (fsm_data (ses w)) ''current_item_id'' of
        None \<Rightarrow> None
      | Some item_id \<Rightarrow> get_item_by_id (menu_manager w) item_id)"

text \<open>
  \<^verbatim>\<open>add_item_with_quantity\<close>. The order found by \<^verbatim>\<open>get_order_by_id\<close> is changed in place and
  the list is saved: \<open>add_line\<close>.
\<close>

definition add_item_with_quantity :: "world \<Rightarrow> int \<Rightarrow> reply \<times> world" where
  "add_item_with_quantity w quantity =
     (case (session_order w, session_item w) of
        (Some ord, Some it) \<Rightarrow>
          (Added (mi_name it) quantity,
           set_state
             (w\<lparr>order_manager := add_line (order_manager w) (o_id ord) it quantity\<rparr>)
             selecting_main_category)
      | _ \<Rightarrow> (AddFailed, w))"

text \<open>
  \<^verbatim>\<open>process_quantity\<close>, the handler of the state \<^verbatim>\<open>entering_quantity\<close>. The text of a message
  is \<open>None\<close> for a message without text (a photo, a sticker); \<^verbatim>\<open>int(None)\<close> raises
  \<^verbatim>\<open>TypeError\<close>, which the handler does not catch. Python's \<^verbatim>\<open>int\<close> on a string is a builtin and
  a parameter here: \<open>py_int t\<close> is \<open>None\<close> where \<^verbatim>\<open>int(t)\<close> raises \<^verbatim>\<open>ValueError\<close>.
\<close>

definition process_quantity ::
  "(string \<Rightarrow> int option) \<Rightarrow> world \<Rightarrow> string option \<Rightarrow> py_error + reply \<times> world" where
  "process_quantity py_int w text =
     (if text = Some str_other_quantity then Inr (AskNumber, w)
      else if text = Some str_back \<or> text = Some str_cancel then back_to_items w
      else
        (case text of
           None \<Rightarrow> Inl TypeError
         | Some t \<Rightarrow>
             (case py_int t of
                None \<Rightarrow> Inr (BadQuantity, w)
              | Some quantity \<Rightarrow>
                  if quantity \<le> 0 then Inr (BadQuantity, w)
                  else Inr (add_item_with_quantity w quantity))))"

section \<open>Which handler takes a message in the quantity state (main.py and the routers)\<close>

text \<open>
  The texts of the buttons that handlers without a state filter compare the message with:
  back to the main menu, the menu, back to the menu, a new order, the active orders, back
  to the tables, back to the orders.
\<close>

definition str_new_order :: string where
  "str_new_order = [CHR 0xF0, CHR 0x9F, CHR 0x86, CHR 0x95, CHR 0x20, CHR 0xD0, CHR 0x9D,
     CHR 0xD0, CHR 0xBE, CHR 0xD0, CHR 0xB2, CHR 0xD1, CHR 0x8B, CHR 0xD0, CHR 0xB9, CHR 0x20,
     CHR 0xD0, CHR 0xB7, CHR 0xD0, CHR 0xB0, CHR 0xD0, CHR 0xBA, CHR 0xD0, CHR 0xB0, CHR 0xD0,
     CHR 0xB7]"

definition str_active_orders :: string where
  "str_active_orders = [CHR 0xF0, CHR 0x9F, CHR 0x93, CHR 0x8B, CHR 0x20, CHR 0xD0, CHR 0x90,
     CHR 0xD0, CHR 0xBA, CHR 0xD1, CHR 0x82, CHR 0xD0, CHR 0xB8, CHR 0xD0, CHR 0xB2, CHR 0xD0,
     CHR 0xBD, CHR 0xD1, CHR 0x8B, CHR 0xD0, CHR 0xB5, CHR 0x20, CHR 0xD0, CHR 0xB7, CHR 0xD0,
     CHR 0xB0, CHR 0xD0, CHR 0xBA, CHR 0xD0, CHR 0xB0, CHR 0xD0, CHR 0xB7, CHR 0xD1, CHR 0x8B]"

definition str_to_main_menu :: string where
  "str_to_main_menu = [CHR 0xF0, CHR 0x9F, CHR 0x94, CHR 0x99, CHR 0x20, CHR 0xD0, CHR 0x92,
     CHR 0xD0, CHR 0xB5, CHR 0xD1, CHR 0x80, CHR 0xD0, CHR 0xBD, CHR 0xD1, CHR 0x83, CHR 0xD1,
     CHR 0x82, CHR 0xD1, CHR 0x8C, CHR 0xD1, CHR 0x81, CHR 0xD1, CHR 0x8F, CHR 0x20, CHR 0xD0,
     CHR 0xB2, CHR 0x20, CHR 0xD0, CHR 0xB3, CHR 0xD0, CHR 0xBB, CHR 0xD0, CHR 0xB0, CHR 0xD0,
     CHR 0xB2, CHR 0xD0, CHR 0xBD, CHR 0xD0, CHR 0xBE, CHR 0xD0, CHR 0xB5, CHR 0x20, CHR 0xD0,
     CHR 0xBC, CHR 0xD0, CHR 0xB5, CHR 0xD0, CHR 0xBD, CHR 0xD1, CHR 0x8E]"

definition str_back_to_tables :: string where
  "str_back_to_tables = [CHR 0xF0, CHR 0x9F, CHR 0x94, CHR 0x99, CHR 0x20, CHR 0xD0, CHR 0x9D,
     CHR 0xD0, CHR 0xB0, CHR 0xD0, CHR 0xB7, CHR 0xD0, CHR 0xB0, CHR 0xD0, CHR 0xB4, CHR 0x20,
     CHR 0xD0, CHR 0xBA, CHR 0x20, CHR 0xD1, CHR 0x81, CHR 0xD1, CHR 0x82, CHR 0xD0, CHR 0xBE,
     CHR 0xD0, CHR 0xBB, CHR 0xD0, CHR 0xB0, CHR 0xD0, CHR 0xBC]"

definition str_back_to_orders :: string where
  "str_back_to_orders = [CHR 0xF0, CHR 0x9F, CHR 0x94, CHR 0x99, CHR 0x20, CHR 0xD0, CHR 0x9D,
     CHR 0xD0, CHR 0xB0, CHR 0xD0, CHR 0xB7, CHR 0xD0, CHR 0xB0, CHR 0xD0, CHR 0xB4, CHR 0x20,
     CHR 0xD0, CHR 0xBA, CHR 0x20, CHR 0xD0, CHR 0xB7, CHR 0xD0, CHR 0xB0, CHR 0xD0, CHR 0xBA,
     CHR 0xD0, CHR 0xB0, CHR 0xD0, CHR 0xB7, CHR 0xD0, CHR 0xB0, CHR 0xD0, CHR 0xBC]"

definition str_menu :: string where
  "str_menu = [CHR 0xF0, CHR 0x9F, CHR 0x8D, CHR 0xBD, CHR 0xEF, CHR 0xB8, CHR 0x8F, CHR 0x20,
     CHR 0xD0, CHR 0x9C, CHR 0xD0, CHR 0xB5, CHR 0xD0, CHR 0xBD, CHR 0xD1, CHR 0x8E]"

definition str_back_to_menu :: string where
  "str_back_to_menu = [CHR 0xF0, CHR 0x9F, CHR 0x94, CHR 0x99, CHR 0x20, CHR 0xD0, CHR 0x9D,
     CHR 0xD0, CHR 0xB0, CHR 0xD0, CHR 0xB7, CHR 0xD0, CHR 0xB0, CHR 0xD0, CHR 0xB4, CHR 0x20,
     CHR 0xD0, CHR 0xB2, CHR 0x20, CHR 0xD0, CHR 0xBC, CHR 0xD0, CHR 0xB5, CHR 0xD0, CHR 0xBD,
     CHR 0xD1, CHR 0x8E]"

text \<open>
  The handlers that can take a message of a session in the state \<^verbatim>\<open>entering_quantity\<close>: the
  ones registered without a state filter, and the two of that state.
\<close>

datatype handler =
    H_cmd_start
  | H_cmd_help
  | H_return_to_main_menu
  | H_show_menu
  | H_back_to_menu
  | H_new_order
  | H_show_active_orders
  | H_back_to_tables
  | H_back_to_active_orders
  | H_back_to_items
  | H_process_quantity

text \<open>
  \<^verbatim>\<open>main.py\<close> includes the routers of common.py, menu\_handlers.py and order\_handlers.py in
  this order, and a message goes to the first handler, in the order of registration, whose
  filters accept it. For a session in the state \<^verbatim>\<open>entering_quantity\<close> the handlers of other
  states are out, and \<^verbatim>\<open>back_to_main_menu\<close> of order\_handlers.py is never reached, since
  \<^verbatim>\<open>return_to_main_menu\<close> of common.py has the same filter. The filter \<^verbatim>\<open>Command(c)\<close> belongs
  to aiogram and is a parameter: \<open>is_command c text\<close> says that it accepts the message.
\<close>

definition route_entering_quantity ::
  "(string \<Rightarrow> string option \<Rightarrow> bool) \<Rightarrow> string option \<Rightarrow> handler" where
  "route_entering_quantity is_command text =
     (if is_command ''start'' text then H_cmd_start
      else if is_command ''help'' text then H_cmd_help
      else if text = Some str_to_main_menu then H_return_to_main_menu
      else if text = Some str_menu then H_show_menu
      else if text = Some str_back_to_menu then H_back_to_menu
      else if text = Some str_new_order then H_new_order
      else if text = Some str_active_orders then H_show_active_orders
      else if text = Some str_back_to_tables then H_back_to_tables
      else if text = Some str_back_to_orders then H_back_to_active_orders
      else if text = Some str_back then H_back_to_items
      else H_process_quantity)"

text \<open>
  What becomes of a message in the quantity state: another handler takes it, or one of the
  two handlers of the state runs and raises or answers.
\<close>

datatype outcome =
    Elsewhere handler
  | Raised py_error
  | Answered reply world

definition outcome_of :: "py_error + reply \<times> world \<Rightarrow> outcome" where
  "outcome_of r = (case r of Inl e \<Rightarrow> Raised e | Inr (a, w) \<Rightarrow> Answered a w)"

definition dispatch_entering_quantity ::
  "(string \<Rightarrow> string option \<Rightarrow> bool) \<Rightarrow> (string \<Rightarrow> int option) \<Rightarrow> world \<Rightarrow> string option \<Rightarrow>
     outcome" where
  "dispatch_entering_quantity is_command py_int w text =
     (case route_entering_quantity is_command text of
        H_back_to_items \<Rightarrow> outcome_of (back_to_items w)
      | H_process_quantity \<Rightarrow> outcome_of (process_quantity py_int w text)
      | h \<Rightarrow> Elsewhere h)"

text \<open>
  The texts that no handler registered ahead of the two handlers of the quantity state
  takes: no \<^verbatim>\<open>/start\<close> or \<^verbatim>\<open>/help\<close> command and none of the seven button texts above.
\<close>

definition navigation_texts :: "string list" where
  "navigation_texts =
     [str_to_main_menu, str_menu, str_back_to_menu, str_new_order, str_active_orders,
      str_back_to_tables, str_back_to_orders]"

definition reaches_quantity_handlers :: "(string \<Rightarrow> string option \<Rightarrow> bool) \<Rightarrow> string \<Rightarrow> bool" where
  "reaches_quantity_handlers is_command t \<longleftrightarrow>
     \<not> is_command ''start'' (Some t) \<and> \<not> is_command ''help'' (Some t) \<and>
     t \<notin> set navigation_texts"

section \<open>Concrete stores used by the witnesses\<close>

definition catalog0 :: MenuManager where
  "catalog0 = \<lparr>menu_items = [], menu_file = Absent\<rparr>"

definition catalog3 :: MenuManager where
  "catalog3 =
     \<lparr>menu_items =
        [MenuItem_init 1 ''Caesar'' str_Salaty None,
         MenuItem_init 2 ''Lager'' str_Pivo None,
         MenuItem_init 3 ''Tea'' str_Chai None],
      menu_file = Absent\<rparr>"


definition caesar :: MenuItem where
  "caesar = MenuItem_init 1 ''Caesar'' str_Salaty None"

definition lager :: MenuItem where
  "lager = MenuItem_init 2 ''Lager'' str_Pivo None"

definition order5 :: Order where
  "order5 =
     \<lparr>o_id = 1, o_table_number = 5,
      o_items = [\<lparr>oi_menu_item = lager, oi_quantity = 4\<rparr>],
      o_timestamp = ''2024-05-01T12:00:00'', o_is_active = True\<rparr>"

definition fresh_store :: OrderManager where
  "fresh_store = OrderManager_init ''2024-05-01T11:00:00'' Absent"

definition order_t5 :: Order where
  "order_t5 = Order_init ''2024-05-01T12:00:00'' 1 5 None None True"

definition store_t5 :: OrderManager where
  "store_t5 = run fresh_store [CreateOrder ''2024-05-01T12:00:00'' 5]"

definition order6 :: Order where
  "order6 =
     \<lparr>o_id = 2, o_table_number = 6, o_items = [],
      o_timestamp = ''2024-05-01T13:00:00'', o_is_active = False\<rparr>"

definition old_file :: data_file where
  "old_file = Content (JList [Order_to_dict order5, Order_to_dict order6])"

text \<open>
  A stand-in for Python's \<^verbatim>\<open>int\<close> in the examples: it reads a non-empty string of ASCII
  digits, as \<^verbatim>\<open>int\<close> does, and rejects every other string (\<^verbatim>\<open>int\<close> accepts some more: signs,
  blanks around the digits, underscores, other decimal digits of Unicode). The two agree on
  the texts used below.
\<close>

definition ascii_int :: "string \<Rightarrow> int option" where
  "ascii_int s =
     (if s \<noteq> [] \<and> list_all (\<lambda>c. c \<in> set ''0123456789'') s
      then Some (foldl (\<lambda>n c. 10 * n + (int (of_char c) - 48)) 0 s)
      else None)"

definition quantity_session :: session where
  "quantity_session =
     \<lparr>fsm_state = Some entering_quantity,
      fsm_data = Map.empty(''current_order_id'' \<mapsto> JInt 1,
                           ''current_main_category'' \<mapsto> JStr str_Kuhnya,
                           ''current_category'' \<mapsto> JStr str_Salaty,
                           ''current_item_id'' \<mapsto> JInt 1)\<rparr>"

definition quantity_world :: world where
  "quantity_world =
     \<lparr>ses = quantity_session, order_manager = store_t5, menu_manager = catalog3\<rparr>"

text \<open>
  A stand-in for aiogram's \<^verbatim>\<open>Command\<close> filter in the examples: the first word of the text is
  the command after a slash (aiogram also accepts a mention of the bot after the command, and
  reads the caption of a message without text). The two agree on the texts used below, none
  of which begins with a slash.
\<close>

definition slash_command :: "string \<Rightarrow> string option \<Rightarrow> bool" where
  "slash_command c text =
     (case text of
        None \<Rightarrow> False
      | Some t \<Rightarrow> takeWhile (\<lambda>ch. ch \<noteq> CHR '' '') t = CHR ''/'' # c)"
section \<open>Properties of the catalog\<close>

lemmas str_defs =
  str_Kuhnya_def str_Bar_def str_Zakuski_def str_Garniry_def str_Goryachee_def str_Deserty_def
  str_Salaty_def str_Kokteili_def str_Alkogol_def str_Pivo_def str_Limonady_def str_Chai_def
  str_Salat_Cezar_def

lemma py_max_Max: "xs \<noteq> [] \<Longrightarrow> py_max xs d = Max (set xs)"
  by (cases xs) (simp_all add: Max.set_eq_fold [symmetric])

lemma py_max_ge: "x \<in> set xs \<Longrightarrow> x \<le> py_max xs d"
proof -
  assume x: "x \<in> set xs"
  then have "xs \<noteq> []" by auto
  then have "py_max xs d = Max (set xs)" by (rule py_max_Max)
  with x show ?thesis by simp
qed

lemma delete_loop_None: "delete_loop i xs = None \<longleftrightarrow> i \<notin> mi_id ` set xs"
  by (induction xs) auto

text \<open>
  Claim C3. \<^verbatim>\<open>add_item\<close> gives id 1 on an empty catalog and the largest existing id plus 1
  on any other one, whatever deletions came before; so after \<^verbatim>\<open>delete_item d\<close>, as long as
  an item with an id above \<open>d\<close> remains, the next id is above \<open>d\<close> and \<open>d\<close> is not given again.
\<close>

theorem add_item_assigns_next_id:
  "(menu_items m = [] \<longrightarrow> mi_id (fst (add_item m n c mc)) = 1) \<and>
   (menu_items m \<noteq> [] \<longrightarrow>
      mi_id (fst (add_item m n c mc)) = Max (mi_id ` set (menu_items m)) + 1) \<and>
   (\<forall>x \<in> set (menu_items (snd (delete_item m d))). d < mi_id x \<longrightarrow>
      d < mi_id (fst (add_item (snd (delete_item m d)) n c mc)) \<and>
      mi_id (fst (add_item (snd (delete_item m d)) n c mc)) \<noteq> d)"
proof (intro conjI impI ballI)
  assume "menu_items m = []"
  then show "mi_id (fst (add_item m n c mc)) = 1"
    by (simp add: add_item_def Let_def MenuItem_init_def)
next
  assume "menu_items m \<noteq> []"
  then have "py_max (map mi_id (menu_items m)) 0 = Max (set (map mi_id (menu_items m)))"
    by (intro py_max_Max) simp
  then show "mi_id (fst (add_item m n c mc)) = Max (mi_id ` set (menu_items m)) + 1"
    by (simp add: add_item_def Let_def MenuItem_init_def)
next
  fix x
  assume x: "x \<in> set (menu_items (snd (delete_item m d)))" and d: "d < mi_id x"
  let ?m = "snd (delete_item m d)"
  from x have "mi_id x \<le> py_max (map mi_id (menu_items ?m)) 0"
    by (intro py_max_ge) simp
  with d have "d < py_max (map mi_id (menu_items ?m)) 0 + 1" by simp
  then show "d < mi_id (fst (add_item ?m n c mc))"
    by (simp add: add_item_def Let_def MenuItem_init_def)
  then show "mi_id (fst (add_item ?m n c mc)) \<noteq> d" by simp
qed

theorem add_item_assigns_next_id_witness:
  "menu_items catalog0 = [] \<and>
   mi_id (fst (add_item catalog0 ''Soup'' str_Goryachee None)) = 1 \<and>
   menu_items catalog3 \<noteq> [] \<and>
   mi_id (fst (add_item catalog3 ''Soup'' str_Goryachee None)) = 4 \<and>
   MenuItem_init 3 ''Tea'' str_Chai None \<in> set (menu_items (snd (delete_item catalog3 2))) \<and>
   mi_id (fst (add_item (snd (delete_item catalog3 2)) ''Soup'' str_Goryachee None)) \<noteq> 2"
  using add_item_assigns_next_id [of catalog0 "''Soup''" str_Goryachee None 2]
    add_item_assigns_next_id [of catalog3 "''Soup''" str_Goryachee None 2]
  by (simp add: catalog0_def catalog3_def delete_item_def save_menu_def MenuItem_init_def)

text \<open>
  Claim C6. \<^verbatim>\<open>delete_item\<close> with an id that no item of the catalog has returns \<^verbatim>\<open>False\<close> and
  leaves the manager as it was (the same items in the same order, the file untouched); with
  an id that some item has it returns \<^verbatim>\<open>True\<close>.
\<close>

theorem delete_item_absent_is_noop:
  "(item_id \<notin> mi_id ` set (menu_items m) \<longrightarrow> delete_item m item_id = (False, m)) \<and>
   (item_id \<in> mi_id ` set (menu_items m) \<longrightarrow> fst (delete_item m item_id) = True)"
proof (intro conjI impI)
  assume "item_id \<notin> mi_id ` set (menu_items m)"
  then have "delete_loop item_id (menu_items m) = None"
    by (simp add: delete_loop_None)
  then show "delete_item m item_id = (False, m)"
    by (simp add: delete_item_def)
next
  assume "item_id \<in> mi_id ` set (menu_items m)"
  then have "delete_loop item_id (menu_items m) \<noteq> None"
    by (simp add: delete_loop_None)
  then show "fst (delete_item m item_id) = True"
    by (auto simp: delete_item_def)
qed

theorem delete_item_absent_is_noop_witness:
  "999 \<notin> mi_id ` set (menu_items catalog3) \<and> delete_item catalog3 999 = (False, catalog3) \<and>
   2 \<in> mi_id ` set (menu_items catalog3) \<and> fst (delete_item catalog3 2) = True"
  using delete_item_absent_is_noop [of 999 catalog3] delete_item_absent_is_noop [of 2 catalog3]
  by (simp add: catalog3_def MenuItem_init_def)

text \<open>
  Claim C8. A \<^verbatim>\<open>MenuItem\<close> built without a main category gets the one its category belongs
  to in \<^verbatim>\<open>MENU_CATEGORIES\<close>: the kitchen for the five kitchen categories, the bar for the
  five bar categories, and the fallback, the kitchen again, for any other category; a main
  category given explicitly is kept. \<^verbatim>\<open>add_item\<close> of the Caesar salad (\<open>str_Salat_Cezar\<close>) in
  the salads category on an empty catalog yields id 1 and the kitchen as main category.
\<close>

theorem main_category_derived_from_category:
  "(c \<in> set [str_Zakuski, str_Garniry, str_Goryachee, str_Deserty, str_Salaty] \<longrightarrow>
      mi_main_category (MenuItem_init i n c None) = str_Kuhnya) \<and>
   (c \<in> set [str_Kokteili, str_Alkogol, str_Pivo, str_Limonady, str_Chai] \<longrightarrow>
      mi_main_category (MenuItem_init i n c None) = str_Bar) \<and>
   (c \<notin> \<Union> (set (map (set \<circ> snd) MENU_CATEGORIES)) \<longrightarrow>
      mi_main_category (MenuItem_init i n c None) = str_Kuhnya) \<and>
   mi_main_category (MenuItem_init i n c (Some mc)) = mc \<and>
   (menu_items m = [] \<longrightarrow>
      mi_id (fst (add_item m str_Salat_Cezar str_Salaty None)) = 1 \<and>
      mi_main_category (fst (add_item m str_Salat_Cezar str_Salaty None)) = str_Kuhnya)"
proof (intro conjI impI)
  assume "c \<in> set [str_Zakuski, str_Garniry, str_Goryachee, str_Deserty, str_Salaty]"
  then show "mi_main_category (MenuItem_init i n c None) = str_Kuhnya"
    by (simp add: MenuItem_init_def determine_main_category_def MENU_CATEGORIES_def)
next
  assume "c \<in> set [str_Kokteili, str_Alkogol, str_Pivo, str_Limonady, str_Chai]"
  then have "c \<notin> set [str_Zakuski, str_Garniry, str_Goryachee, str_Deserty, str_Salaty]"
    by (auto simp: str_defs)
  with \<open>c \<in> set [str_Kokteili, str_Alkogol, str_Pivo, str_Limonady, str_Chai]\<close>
  show "mi_main_category (MenuItem_init i n c None) = str_Bar"
    by (simp add: MenuItem_init_def determine_main_category_def MENU_CATEGORIES_def)
next
  assume "c \<notin> \<Union> (set (map (set \<circ> snd) MENU_CATEGORIES))"
  then show "mi_main_category (MenuItem_init i n c None) = str_Kuhnya"
    by (simp add: MenuItem_init_def determine_main_category_def MENU_CATEGORIES_def)
next
  show "mi_main_category (MenuItem_init i n c (Some mc)) = mc"
    by (simp add: MenuItem_init_def)
next
  assume "menu_items m = []"
  then show "mi_id (fst (add_item m str_Salat_Cezar str_Salaty None)) = 1"
    by (simp add: add_item_def Let_def MenuItem_init_def)
next
  show "mi_main_category (fst (add_item m str_Salat_Cezar str_Salaty None)) = str_Kuhnya"
    by (simp add: add_item_def Let_def MenuItem_init_def determine_main_category_def
        MENU_CATEGORIES_def)
qed

theorem main_category_derived_from_category_witness:
  "mi_main_category (MenuItem_init 7 ''Caesar'' str_Salaty None) = str_Kuhnya \<and>
   mi_main_category (MenuItem_init 7 ''Lager'' str_Pivo None) = str_Bar \<and>
   ''Pizza'' \<notin> \<Union> (set (map (set \<circ> snd) MENU_CATEGORIES)) \<and>
   mi_main_category (MenuItem_init 7 ''Margherita'' ''Pizza'' None) = str_Kuhnya \<and>
   menu_items catalog0 = [] \<and>
   mi_id (fst (add_item catalog0 str_Salat_Cezar str_Salaty None)) = 1 \<and>
   mi_main_category (fst (add_item catalog0 str_Salat_Cezar str_Salaty None)) = str_Kuhnya"
proof -
  have pizza: "''Pizza'' \<notin> \<Union> (set (map (set \<circ> snd) MENU_CATEGORIES))"
    by (simp add: MENU_CATEGORIES_def str_defs)
  have empty: "menu_items catalog0 = []"
    by (simp add: catalog0_def)
  from pizza empty
    main_category_derived_from_category [of str_Salaty 7 "''Caesar''" "''x''" catalog0]
    main_category_derived_from_category [of str_Pivo 7 "''Lager''" "''x''" catalog0]
    main_category_derived_from_category [of "''Pizza''" 7 "''Margherita''" "''x''" catalog0]
  show ?thesis by simp
qed

section \<open>Properties of one order\<close>

lemma distinct_count_le_1:
  "distinct (map g ys) \<Longrightarrow> length (filter (\<lambda>y. g y = t) ys) \<le> 1"
proof (induction ys)
  case Nil
  then show ?case by simp
next
  case (Cons y ys)
  show ?case
  proof (cases "g y = t")
    case True
    with Cons.prems have "filter (\<lambda>y. g y = t) ys = []"
      by (auto simp: filter_empty_conv image_iff)
    with True show ?thesis by simp
  next
    case False
    with Cons show ?thesis by simp
  qed
qed

lemma distinct_count_1:
  assumes "distinct (map g ys)" and "t \<in> g ` set ys"
  shows "length (filter (\<lambda>y. g y = t) ys) = 1"
proof -
  from assms(2) have "filter (\<lambda>y. g y = t) ys \<noteq> []"
    by (auto simp: filter_empty_conv)
  then have "1 \<le> length (filter (\<lambda>y. g y = t) ys)"
    by (cases "filter (\<lambda>y. g y = t) ys") simp_all
  with distinct_count_le_1 [OF assms(1), of t] show ?thesis by simp
qed

lemma add_item_loop_None:
  "add_item_loop xs m q = None \<longleftrightarrow> mi_id m \<notin> (\<lambda>l. mi_id (oi_menu_item l)) ` set xs"
  by (induction xs) auto

lemma add_item_loop_ids:
  "add_item_loop xs m q = Some ys \<Longrightarrow>
     map (\<lambda>l. mi_id (oi_menu_item l)) ys = map (\<lambda>l. mi_id (oi_menu_item l)) xs"
  by (induction xs arbitrary: ys) (auto split: if_splits)

lemma add_item_loop_quantity:
  "add_item_loop xs m q = Some ys \<Longrightarrow>
     sum_list (map oi_quantity (filter (\<lambda>l. mi_id (oi_menu_item l) = mi_id m) ys)) =
     sum_list (map oi_quantity (filter (\<lambda>l. mi_id (oi_menu_item l) = mi_id m) xs)) + q"
  by (induction xs arbitrary: ys) (auto split: if_splits)

lemma add_item_loop_last:
  "mi_id m \<notin> (\<lambda>l. mi_id (oi_menu_item l)) ` set xs \<Longrightarrow>
     add_item_loop (xs @ [\<lparr>oi_menu_item = m, oi_quantity = q1\<rparr>]) m q2 =
       Some (xs @ [\<lparr>oi_menu_item = m, oi_quantity = q1 + q2\<rparr>])"
  by (induction xs) auto

text \<open>
  Claim C2. On an order that has no line of the menu item yet, the first \<^verbatim>\<open>add_item\<close> appends
  a line and the second one raises its quantity: after adding \<open>q1\<close> and then \<open>q2\<close> the lines
  are the old ones followed by one line of the item with quantity \<open>q1 + q2\<close>, the only line of
  that menu item id. On an order that has a line of the item, \<^verbatim>\<open>add_item\<close> keeps the lines
  and their ids as they are, so it makes no second line, and raises the quantity by \<open>q\<close>.
  Lines that have pairwise different menu item ids stay so, and after \<^verbatim>\<open>add_item\<close> exactly one
  of them is the line of the item.
\<close>

theorem add_item_twice_one_line:
  "(mi_id m \<notin> (\<lambda>l. mi_id (oi_menu_item l)) ` set (o_items ord) \<longrightarrow>
      o_items (Order_add_item ord m q1) =
        o_items ord @ [\<lparr>oi_menu_item = m, oi_quantity = q1\<rparr>] \<and>
      o_items (Order_add_item (Order_add_item ord m q1) m q2) =
        o_items ord @ [\<lparr>oi_menu_item = m, oi_quantity = q1 + q2\<rparr>] \<and>
      filter (\<lambda>l. mi_id (oi_menu_item l) = mi_id m)
          (o_items (Order_add_item (Order_add_item ord m q1) m q2)) =
        [\<lparr>oi_menu_item = m, oi_quantity = q1 + q2\<rparr>]) \<and>
   (mi_id m \<in> (\<lambda>l. mi_id (oi_menu_item l)) ` set (o_items ord) \<longrightarrow>
      map (\<lambda>l. mi_id (oi_menu_item l)) (o_items (Order_add_item ord m q)) =
        map (\<lambda>l. mi_id (oi_menu_item l)) (o_items ord) \<and>
      sum_list (map oi_quantity (filter (\<lambda>l. mi_id (oi_menu_item l) = mi_id m)
          (o_items (Order_add_item ord m q)))) =
        sum_list (map oi_quantity (filter (\<lambda>l. mi_id (oi_menu_item l) = mi_id m)
          (o_items ord))) + q) \<and>
   (distinct (map (\<lambda>l. mi_id (oi_menu_item l)) (o_items ord)) \<longrightarrow>
      distinct (map (\<lambda>l. mi_id (oi_menu_item l)) (o_items (Order_add_item ord m q))) \<and>
      length (filter (\<lambda>l. mi_id (oi_menu_item l) = mi_id m)
          (o_items (Order_add_item ord m q))) = 1)"
proof (intro conjI impI)
  assume absent: "mi_id m \<notin> (\<lambda>l. mi_id (oi_menu_item l)) ` set (o_items ord)"
  then have none: "add_item_loop (o_items ord) m q1 = None"
    by (simp add: add_item_loop_None)
  then show first: "o_items (Order_add_item ord m q1) =
      o_items ord @ [\<lparr>oi_menu_item = m, oi_quantity = q1\<rparr>]"
    by (simp add: Order_add_item_def)
  from absent show second: "o_items (Order_add_item (Order_add_item ord m q1) m q2) =
      o_items ord @ [\<lparr>oi_menu_item = m, oi_quantity = q1 + q2\<rparr>]"
    by (simp add: Order_add_item_def none add_item_loop_last)
  from absent have "filter (\<lambda>l. mi_id (oi_menu_item l) = mi_id m) (o_items ord) = []"
    by (auto simp: filter_empty_conv image_iff)
  then show "filter (\<lambda>l. mi_id (oi_menu_item l) = mi_id m)
      (o_items (Order_add_item (Order_add_item ord m q1) m q2)) =
      [\<lparr>oi_menu_item = m, oi_quantity = q1 + q2\<rparr>]"
    by (simp add: second)
next
  assume "mi_id m \<in> (\<lambda>l. mi_id (oi_menu_item l)) ` set (o_items ord)"
  then obtain ys where ys: "add_item_loop (o_items ord) m q = Some ys"
    using add_item_loop_None [of "o_items ord" m q] by auto
  then have items: "o_items (Order_add_item ord m q) = ys"
    by (simp add: Order_add_item_def)
  show "map (\<lambda>l. mi_id (oi_menu_item l)) (o_items (Order_add_item ord m q)) =
      map (\<lambda>l. mi_id (oi_menu_item l)) (o_items ord)"
    using add_item_loop_ids [OF ys] by (simp add: items)
  show "sum_list (map oi_quantity (filter (\<lambda>l. mi_id (oi_menu_item l) = mi_id m)
      (o_items (Order_add_item ord m q)))) =
      sum_list (map oi_quantity (filter (\<lambda>l. mi_id (oi_menu_item l) = mi_id m)
      (o_items ord))) + q"
    using add_item_loop_quantity [OF ys] by (simp add: items)
next
  assume dist: "distinct (map (\<lambda>l. mi_id (oi_menu_item l)) (o_items ord))"
  show after: "distinct (map (\<lambda>l. mi_id (oi_menu_item l)) (o_items (Order_add_item ord m q)))"
  proof (cases "add_item_loop (o_items ord) m q")
    case None
    then have "mi_id m \<notin> (\<lambda>l. mi_id (oi_menu_item l)) ` set (o_items ord)"
      by (simp add: add_item_loop_None)
    with dist None show ?thesis
      by (simp add: Order_add_item_def)
  next
    case (Some ys)
    with dist add_item_loop_ids [OF Some] show ?thesis
      by (simp add: Order_add_item_def)
  qed
  have "mi_id m \<in> (\<lambda>l. mi_id (oi_menu_item l)) ` set (o_items (Order_add_item ord m q))"
  proof (cases "add_item_loop (o_items ord) m q")
    case None
    then show ?thesis by (simp add: Order_add_item_def)
  next
    case (Some ys)
    then have "mi_id m \<in> (\<lambda>l. mi_id (oi_menu_item l)) ` set (o_items ord)"
      using add_item_loop_None [of "o_items ord" m q] by simp
    then have "mi_id m \<in> set (map (\<lambda>l. mi_id (oi_menu_item l)) (o_items ord))"
      by simp
    then have "mi_id m \<in> set (map (\<lambda>l. mi_id (oi_menu_item l)) ys)"
      by (simp only: add_item_loop_ids [OF Some])
    with Some show ?thesis by (simp add: Order_add_item_def)
  qed
  with after show "length (filter (\<lambda>l. mi_id (oi_menu_item l) = mi_id m)
      (o_items (Order_add_item ord m q))) = 1"
    by (rule distinct_count_1)
qed

theorem add_item_twice_one_line_witness:
  "mi_id caesar \<notin> (\<lambda>l. mi_id (oi_menu_item l)) ` set (o_items order5) \<and>
   o_items (Order_add_item (Order_add_item order5 caesar 2) caesar 3) =
     [\<lparr>oi_menu_item = lager, oi_quantity = 4\<rparr>, \<lparr>oi_menu_item = caesar, oi_quantity = 5\<rparr>] \<and>
   mi_id lager \<in> (\<lambda>l. mi_id (oi_menu_item l)) ` set (o_items order5) \<and>
   o_items (Order_add_item order5 lager 3) = [\<lparr>oi_menu_item = lager, oi_quantity = 7\<rparr>] \<and>
   distinct (map (\<lambda>l. mi_id (oi_menu_item l)) (o_items order5)) \<and>
   length (filter (\<lambda>l. mi_id (oi_menu_item l) = mi_id lager)
     (o_items (Order_add_item order5 lager 3))) = 1"
proof -
  have absent: "mi_id caesar \<notin> (\<lambda>l. mi_id (oi_menu_item l)) ` set (o_items order5)"
    by (simp add: order5_def caesar_def lager_def MenuItem_init_def)
  have present: "mi_id lager \<in> (\<lambda>l. mi_id (oi_menu_item l)) ` set (o_items order5)"
    by (simp add: order5_def)
  have dist: "distinct (map (\<lambda>l. mi_id (oi_menu_item l)) (o_items order5))"
    by (simp add: order5_def)
  have raised: "o_items (Order_add_item order5 lager 3) =
      [\<lparr>oi_menu_item = lager, oi_quantity = 7\<rparr>]"
    by (simp add: Order_add_item_def order5_def)
  from absent add_item_twice_one_line [of caesar order5 2 3 0]
  have "o_items (Order_add_item (Order_add_item order5 caesar 2) caesar 3) =
      o_items order5 @ [\<lparr>oi_menu_item = caesar, oi_quantity = 2 + 3\<rparr>]"
    by blast
  then have twice: "o_items (Order_add_item (Order_add_item order5 caesar 2) caesar 3) =
      [\<lparr>oi_menu_item = lager, oi_quantity = 4\<rparr>, \<lparr>oi_menu_item = caesar, oi_quantity = 5\<rparr>]"
    by (simp add: order5_def)
  from dist add_item_twice_one_line [of lager order5 2 3 3]
  have "length (filter (\<lambda>l. mi_id (oi_menu_item l) = mi_id lager)
      (o_items (Order_add_item order5 lager 3))) = 1"
    by blast
  with absent present dist raised twice show ?thesis
    by blast
qed

section \<open>Properties of the order store\<close>

text \<open>
  Claim C4. \<^verbatim>\<open>create_order\<close> raises (a \<^verbatim>\<open>ValueError\<close>, the spec's InvalidTableError) exactly
  for a table number outside 1..\<^verbatim>\<open>TABLE_COUNT\<close>. For a table in range that has an active order
  it returns that order and leaves the store as it is. For a table in range without one it
  appends a new active order of that table, with no lines and an id no stored order has, and
  returns it.
\<close>

theorem create_order_cases:
  "(create_order now m t = Inl ValueError \<longleftrightarrow> \<not> (1 \<le> t \<and> t \<le> TABLE_COUNT)) \<and>
   (\<forall>res. create_order now m t = Inr res \<longleftrightarrow>
      1 \<le> t \<and> t \<le> TABLE_COUNT \<and>
      (case get_table_active_order m t of
         Some existing \<Rightarrow> res = (existing, m)
       | None \<Rightarrow>
           o_is_active (fst res) \<and> o_table_number (fst res) = t \<and> o_items (fst res) = [] \<and>
           o_id (fst res) \<notin> o_id ` set (orders m) \<and>
           o_id (fst res) = py_max (map o_id (orders m)) 0 + 1 \<and>
           o_timestamp (fst res) = now \<and>
           orders (snd res) = orders m @ [fst res] \<and>
           snd res = save_orders (m\<lparr>orders := orders m @ [fst res]\<rparr>)))"
proof (intro conjI allI)
  show "create_order now m t = Inl ValueError \<longleftrightarrow> \<not> (1 \<le> t \<and> t \<le> TABLE_COUNT)"
    by (simp add: create_order_def Let_def split: option.split)
next
  fix res :: "Order \<times> OrderManager"
  have fresh: "py_max (map o_id (orders m)) 0 + 1 \<notin> o_id ` set (orders m)"
  proof
    assume "py_max (map o_id (orders m)) 0 + 1 \<in> o_id ` set (orders m)"
    then have "py_max (map o_id (orders m)) 0 + 1 \<le> py_max (map o_id (orders m)) 0"
      by (intro py_max_ge) simp
    then show False by simp
  qed
  show "create_order now m t = Inr res \<longleftrightarrow>
      1 \<le> t \<and> t \<le> TABLE_COUNT \<and>
      (case get_table_active_order m t of
         Some existing \<Rightarrow> res = (existing, m)
       | None \<Rightarrow>
           o_is_active (fst res) \<and> o_table_number (fst res) = t \<and> o_items (fst res) = [] \<and>
           o_id (fst res) \<notin> o_id ` set (orders m) \<and>
           o_id (fst res) = py_max (map o_id (orders m)) 0 + 1 \<and>
           o_timestamp (fst res) = now \<and>
           orders (snd res) = orders m @ [fst res] \<and>
           snd res = save_orders (m\<lparr>orders := orders m @ [fst res]\<rparr>))"
  proof (cases "get_table_active_order m t")
    case (Some existing)
    then show ?thesis
      by (auto simp: create_order_def get_table_active_order_def)
  next
    case None
    have "res = (Order_init now (py_max (map o_id (orders m)) 0 + 1) t None None True,
                 save_orders (m\<lparr>orders := orders m @
                   [Order_init now (py_max (map o_id (orders m)) 0 + 1) t None None True]\<rparr>))
          \<longleftrightarrow>
          o_is_active (fst res) \<and> o_table_number (fst res) = t \<and> o_items (fst res) = [] \<and>
          o_id (fst res) \<notin> o_id ` set (orders m) \<and>
          o_id (fst res) = py_max (map o_id (orders m)) 0 + 1 \<and>
          o_timestamp (fst res) = now \<and>
          orders (snd res) = orders m @ [fst res] \<and>
          snd res = save_orders (m\<lparr>orders := orders m @ [fst res]\<rparr>)"
      using fresh by (cases res; cases "fst res") (auto simp: Order_init_def save_orders_def)
    with None show ?thesis
      by (auto simp: create_order_def get_table_active_order_def Let_def)
  qed
qed

lemma fresh_store_eq: "fresh_store = \<lparr>orders = [], orders_file = Content (JList [])\<rparr>"
  by (simp add: fresh_store_def OrderManager_init_def load_orders_def save_orders_def)

lemma order_t5_eq:
  "order_t5 = \<lparr>o_id = 1, o_table_number = 5, o_items = [],
     o_timestamp = ''2024-05-01T12:00:00'', o_is_active = True\<rparr>"
  by (simp add: order_t5_def Order_init_def)

lemma store_t5_eq:
  "store_t5 = \<lparr>orders = [order_t5], orders_file = Content (JList [Order_to_dict order_t5])\<rparr>"
  by (simp add: store_t5_def run_def fresh_store_eq create_order_def TABLE_COUNT_def Let_def
      save_orders_def order_t5_def)

theorem create_order_cases_witness:
  "\<not> (1 \<le> (12::int) \<and> 12 \<le> TABLE_COUNT) \<and>
   create_order ''2024-05-01T12:00:00'' fresh_store 12 = Inl ValueError \<and>
   get_table_active_order fresh_store 5 = None \<and>
   create_order ''2024-05-01T12:00:00'' fresh_store 5 = Inr (order_t5, store_t5) \<and>
   get_table_active_order store_t5 5 = Some order_t5 \<and>
   create_order ''2024-05-01T12:30:00'' store_t5 5 = Inr (order_t5, store_t5)"
proof -
  have range: "\<not> (1 \<le> (12::int) \<and> 12 \<le> TABLE_COUNT)"
    by (simp add: TABLE_COUNT_def)
  have none: "get_table_active_order fresh_store 5 = None"
    by (simp add: fresh_store_eq get_table_active_order_def)
  have some: "get_table_active_order store_t5 5 = Some order_t5"
    by (simp add: store_t5_eq get_table_active_order_def order_t5_eq)
  have new: "1 \<le> (5::int) \<and> 5 \<le> TABLE_COUNT \<and>
      o_is_active order_t5 \<and> o_table_number order_t5 = 5 \<and> o_items order_t5 = [] \<and>
      o_id order_t5 \<notin> o_id ` set (orders fresh_store) \<and>
      o_id order_t5 = py_max (map o_id (orders fresh_store)) 0 + 1 \<and>
      o_timestamp order_t5 = ''2024-05-01T12:00:00'' \<and>
      orders store_t5 = orders fresh_store @ [order_t5] \<and>
      store_t5 = save_orders (fresh_store\<lparr>orders := orders fresh_store @ [order_t5]\<rparr>)"
    by (simp add: TABLE_COUNT_def order_t5_eq store_t5_eq fresh_store_eq save_orders_def)
  from range create_order_cases [of "''2024-05-01T12:00:00''" fresh_store 12]
  have "create_order ''2024-05-01T12:00:00'' fresh_store 12 = Inl ValueError"
    by blast
  moreover
  from new
    create_order_cases [of "''2024-05-01T12:00:00''" fresh_store 5, THEN conjunct2, THEN spec,
      of "(order_t5, store_t5)"]
  have "create_order ''2024-05-01T12:00:00'' fresh_store 5 = Inr (order_t5, store_t5)"
    unfolding none option.case fst_conv snd_conv by blast
  moreover
  from new
    create_order_cases [of "''2024-05-01T12:30:00''" store_t5 5, THEN conjunct2, THEN spec,
      of "(order_t5, store_t5)"]
  have "create_order ''2024-05-01T12:30:00'' store_t5 5 = Inr (order_t5, store_t5)"
    unfolding some option.case by blast
  ultimately show ?thesis
    using range none some by blast
qed


section \<open>Serialisation round trips\<close>

lemma MenuItem_from_to_dict: "MenuItem_from_dict (MenuItem_to_dict x) = Inr x"
  by (simp add: MenuItem_from_dict_def MenuItem_to_dict_def bind_def dict_get_def subscript_def
      as_opt_str_def as_int_def as_str_def MenuItem_init_def)

lemma OrderItem_from_to_dict: "OrderItem_from_dict (OrderItem_to_dict x) = Inr x"
  by (simp add: OrderItem_from_dict_def OrderItem_to_dict_def bind_def subscript_def
      as_int_def MenuItem_from_to_dict)

lemma map_raise_map:
  "(\<And>x. f (g x) = Inr (h x)) \<Longrightarrow> map_raise f (map g xs) = Inr (map h xs)"
  by (induction xs) (simp_all add: bind_def)

lemma items_from_to_dict:
  "items_from (JList (map OrderItem_to_dict xs)) = Inr xs"
  using map_raise_map [of OrderItem_from_dict OrderItem_to_dict "\<lambda>x. x" xs]
  by (simp add: items_from_def OrderItem_from_to_dict)

lemma Order_from_to_dict: "Order_from_dict now (Order_to_dict x) = Inr (stamp now x)"
  by (simp add: Order_from_dict_def Order_to_dict_def bind_def subscript_def
      as_opt_str_def as_int_def as_bool_def items_from_to_dict Order_init_def stamp_def)

lemma load_saved:
  "map_raise (Order_from_dict now) (map Order_to_dict os) = Inr (map (stamp now) os)"
  by (rule map_raise_map) (rule Order_from_to_dict)

lemma menu_record_to_dict:
  "menu_record i n c mc =
     MenuItem_to_dict \<lparr>mi_id = i, mi_name = n, mi_category = c, mi_main_category = mc\<rparr>"
  by (simp add: menu_record_def MenuItem_to_dict_def)

lemma line_record_to_dict:
  "line_record l =
     OrderItem_to_dict
       \<lparr>oi_menu_item =
          \<lparr>mi_id = fst (fst l), mi_name = fst (snd (fst l)),
           mi_category = fst (snd (snd (fst l))), mi_main_category = snd (snd (snd (fst l)))\<rparr>,
        oi_quantity = snd l\<rparr>"
  by (simp add: line_record_def OrderItem_to_dict_def menu_record_to_dict split: prod.split)

lemma order_record_to_dict:
  "order_record i t ls ts a =
     Order_to_dict
       \<lparr>o_id = i, o_table_number = t,
        o_items = map (\<lambda>l. \<lparr>oi_menu_item =
          \<lparr>mi_id = fst (fst l), mi_name = fst (snd (fst l)),
           mi_category = fst (snd (snd (fst l))), mi_main_category = snd (snd (snd (fst l)))\<rparr>,
           oi_quantity = snd l\<rparr>) ls,
        o_timestamp = ts, o_is_active = a\<rparr>"
proof -
  have "map line_record ls =
      map OrderItem_to_dict (map (\<lambda>l. \<lparr>oi_menu_item =
          \<lparr>mi_id = fst (fst l), mi_name = fst (snd (fst l)),
           mi_category = fst (snd (snd (fst l))), mi_main_category = snd (snd (snd (fst l)))\<rparr>,
           oi_quantity = snd l\<rparr>) ls)"
    by (induction ls) (simp_all add: line_record_to_dict)
  then show ?thesis
    by (simp only: order_record_def Order_to_dict_def Order.simps)
qed

text \<open>
  Claim C7. Reading a menu record or an order record of the persisted shape with
  \<^verbatim>\<open>from_dict\<close> and writing the result with \<^verbatim>\<open>to_dict\<close> gives the record back, every field as
  it was; and writing a \<^verbatim>\<open>MenuItem\<close> or an \<^verbatim>\<open>Order\<close> and reading it back gives the same object.
  The timestamp of an order is an ISO-8601 string, hence not empty.
\<close>

theorem to_dict_from_dict_round_trip:
  "bind (MenuItem_from_dict (menu_record i n c mc)) (\<lambda>item. Inr (MenuItem_to_dict item)) =
     Inr (menu_record i n c mc) \<and>
   (ts \<noteq> [] \<longrightarrow>
      bind (Order_from_dict now (order_record oi t ls ts a)) (\<lambda>order. Inr (Order_to_dict order)) =
        Inr (order_record oi t ls ts a)) \<and>
   MenuItem_from_dict (MenuItem_to_dict item) = Inr item \<and>
   (o_timestamp order \<noteq> [] \<longrightarrow> Order_from_dict now (Order_to_dict order) = Inr order)"
proof (intro conjI impI)
  show "bind (MenuItem_from_dict (menu_record i n c mc)) (\<lambda>item. Inr (MenuItem_to_dict item)) =
      Inr (menu_record i n c mc)"
    by (simp add: menu_record_to_dict MenuItem_from_to_dict bind_def)
next
  assume "ts \<noteq> []"
  then show "bind (Order_from_dict now (order_record oi t ls ts a))
      (\<lambda>order. Inr (Order_to_dict order)) = Inr (order_record oi t ls ts a)"
    by (simp add: order_record_to_dict Order_from_to_dict bind_def stamp_def)
next
  show "MenuItem_from_dict (MenuItem_to_dict item) = Inr item"
    by (rule MenuItem_from_to_dict)
next
  assume "o_timestamp order \<noteq> []"
  then show "Order_from_dict now (Order_to_dict order) = Inr order"
    by (simp add: Order_from_to_dict stamp_def)
qed

theorem to_dict_from_dict_round_trip_witness:
  "''2024-05-01T12:00:00'' \<noteq> [] \<and>
   bind (Order_from_dict ''2024-06-01T08:00:00''
          (order_record 1 5 [((2, ''Lager'', str_Pivo, str_Bar), 4)] ''2024-05-01T12:00:00'' True))
        (\<lambda>order. Inr (Order_to_dict order)) =
     Inr (order_record 1 5 [((2, ''Lager'', str_Pivo, str_Bar), 4)] ''2024-05-01T12:00:00'' True) \<and>
   o_timestamp order5 \<noteq> [] \<and>
   Order_from_dict ''2024-06-01T08:00:00'' (Order_to_dict order5) = Inr order5"
proof -
  have ts: "''2024-05-01T12:00:00'' \<noteq> []" by simp
  have ts5: "o_timestamp order5 \<noteq> []" by (simp add: order5_def)
  from ts ts5
    to_dict_from_dict_round_trip [of 1 "''x''" "''y''" "''z''" "''2024-05-01T12:00:00''"
      "''2024-06-01T08:00:00''" 1 5 "[((2, ''Lager'', str_Pivo, str_Bar), 4)]" True caesar order5]
  show ?thesis by blast
qed

section \<open>Invariants of the order store\<close>

lemma update_order_list_all:
  "list_all P xs \<Longrightarrow> (\<And>x. P x \<Longrightarrow> P (f x)) \<Longrightarrow> list_all P (update_order i f xs)"
  by (induction xs) auto

lemma update_order_map:
  "(\<And>x. g (f x) = g x) \<Longrightarrow> map g (update_order i f xs) = map g xs"
  by (induction xs) auto

lemma update_order_map_filter:
  "(\<And>x. g (f x) = g x) \<Longrightarrow> (\<And>x. P (f x) = P x) \<Longrightarrow>
     map g (filter P (update_order i f xs)) = map g (filter P xs)"
  by (induction xs) auto

lemma Order_add_item_fields:
  "o_id (Order_add_item x m q) = o_id x"
  "o_table_number (Order_add_item x m q) = o_table_number x"
  "o_is_active (Order_add_item x m q) = o_is_active x"
  "o_timestamp (Order_add_item x m q) = o_timestamp x"
  by (simp_all add: Order_add_item_def split: option.split)

lemma stamp_fields:
  "o_id (stamp now x) = o_id x"
  "o_table_number (stamp now x) = o_table_number x"
  "o_is_active (stamp now x) = o_is_active x"
  "o_items (stamp now x) = o_items x"
  by (simp_all add: stamp_def)

lemma load_orders_active: "list_all o_is_active (orders (load_orders now m))"
  by (simp add: load_orders_def save_orders_def list_all_iff
      split: data_file.split json.split sum.split)

lemma create_order_active:
  "list_all o_is_active (orders m) \<Longrightarrow> create_order now m t = Inr (ord, m') \<Longrightarrow>
     list_all o_is_active (orders m')"
  by (auto simp: create_order_def Let_def save_orders_def Order_init_def
      split: if_splits option.splits)

lemma close_order_active:
  "list_all o_is_active (orders m) \<Longrightarrow> list_all o_is_active (orders (snd (close_order m i)))"
  by (simp add: close_order_def Let_def save_orders_def list_all_iff split: option.split)

lemma add_line_active:
  "list_all o_is_active (orders m) \<Longrightarrow> list_all o_is_active (orders (add_line m i item q))"
  by (simp add: add_line_def save_orders_def update_order_list_all Order_add_item_fields
      split: option.split)

lemma step_active:
  "list_all o_is_active (orders m) \<Longrightarrow> list_all o_is_active (orders (step m op))"
proof (cases op)
  case (CreateOrder now t)
  assume "list_all o_is_active (orders m)"
  with CreateOrder show ?thesis
    by (auto split: sum.split dest: create_order_active)
next
  case (AddLine i item q)
  assume "list_all o_is_active (orders m)"
  with AddLine show ?thesis by (simp add: add_line_active)
next
  case (CloseOrder i)
  assume "list_all o_is_active (orders m)"
  with CloseOrder show ?thesis by (simp add: close_order_active)
next
  case (Restart now)
  then show ?thesis by (simp add: OrderManager_init_def load_orders_active)
qed

lemma run_active:
  "list_all o_is_active (orders m) \<Longrightarrow> list_all o_is_active (orders (run m ops))"
  unfolding run_def by (induction ops arbitrary: m) (simp_all add: step_active)

lemma find_active:
  "list_all P xs \<Longrightarrow> find Q xs = Some x \<Longrightarrow> P x"
  by (induction xs) (auto split: if_splits)

text \<open>
  Claim C10. Whatever the data file holds at start, the list that \<^verbatim>\<open>OrderManager()\<close> loads
  has active orders only, and so has the list after every run of store operations (creating
  orders, adding lines, closing orders, restarting on the file). Hence \<^verbatim>\<open>get_active_orders\<close>
  returns the whole list and \<^verbatim>\<open>get_order_by_id\<close> returns active orders only.
\<close>

theorem store_holds_active_orders_only:
  "list_all o_is_active (orders (OrderManager_init now f)) \<and>
   list_all o_is_active (orders (run (OrderManager_init now f) ops)) \<and>
   get_active_orders (run (OrderManager_init now f) ops) =
     orders (run (OrderManager_init now f) ops) \<and>
   (\<forall>ord. get_order_by_id (run (OrderManager_init now f) ops) i = Some ord \<longrightarrow>
      o_is_active ord)"
proof -
  have init: "list_all o_is_active (orders (OrderManager_init now f))"
    by (simp add: OrderManager_init_def load_orders_active)
  then have all: "list_all o_is_active (orders (run (OrderManager_init now f) ops))"
    by (rule run_active)
  then have "get_active_orders (run (OrderManager_init now f) ops) =
      orders (run (OrderManager_init now f) ops)"
    by (simp add: get_active_orders_def list_all_iff)
  moreover have "\<forall>ord. get_order_by_id (run (OrderManager_init now f) ops) i = Some ord \<longrightarrow>
      o_is_active ord"
    using all by (auto simp: get_order_by_id_def dest: find_active)
  ultimately show ?thesis using init all by blast
qed

theorem store_holds_active_orders_only_witness:
  "orders (OrderManager_init ''2024-05-02T09:00:00'' old_file) = [order5] \<and>
   get_order_by_id
     (run (OrderManager_init ''2024-05-02T09:00:00'' old_file) [CloseOrder 9]) 1 = Some order5 \<and>
   o_is_active order5"
proof -
  have loaded: "OrderManager_init ''2024-05-02T09:00:00'' old_file =
      \<lparr>orders = [order5], orders_file = old_file\<rparr>"
    by (simp add: OrderManager_init_def load_orders_def old_file_def Order_from_to_dict bind_def
        stamp_def order5_def order6_def)
  then have found: "get_order_by_id
      (run (OrderManager_init ''2024-05-02T09:00:00'' old_file) [CloseOrder 9]) 1 = Some order5"
    by (simp add: run_def close_order_def get_order_by_id_def order5_def)
  with store_holds_active_orders_only
    [of "''2024-05-02T09:00:00''" old_file "[CloseOrder 9]" 1]
  have "o_is_active order5" by blast
  with loaded found show ?thesis by simp
qed

lemma deactivate_tables:
  "set (map o_table_number (filter o_is_active
      (update_order i (\<lambda>ord. ord\<lparr>o_is_active := False\<rparr>) xs)))
     \<subseteq> set (map o_table_number (filter o_is_active xs)) \<and>
   (distinct (map o_table_number (filter o_is_active xs)) \<longrightarrow>
    distinct (map o_table_number (filter o_is_active
      (update_order i (\<lambda>ord. ord\<lparr>o_is_active := False\<rparr>) xs))))"
  by (induction xs) auto

lemma store_inv_deactivate:
  "store_inv xs \<Longrightarrow> store_inv (update_order i (\<lambda>ord. ord\<lparr>o_is_active := False\<rparr>) xs)"
  using deactivate_tables [of i xs] by (simp add: store_inv_def update_order_map)

lemma store_inv_filter: "store_inv xs \<Longrightarrow> store_inv (filter o_is_active xs)"
  by (simp add: store_inv_def distinct_map_filter)

lemma store_inv_add_item:
  "store_inv xs \<Longrightarrow> store_inv (update_order i (\<lambda>ord. Order_add_item ord item q) xs)"
  by (simp add: store_inv_def update_order_map update_order_map_filter Order_add_item_fields)

lemma store_inv_stamp: "store_inv xs \<Longrightarrow> store_inv (map (stamp now) xs)"
proof -
  have tables: "map o_table_number (filter o_is_active (map (stamp now) xs)) =
      map o_table_number (filter o_is_active xs)"
    by (induction xs) (simp_all add: stamp_fields)
  have ids: "map o_id (map (stamp now) xs) = map o_id xs"
    by (induction xs) (simp_all add: stamp_fields)
  assume "store_inv xs"
  then show "store_inv (map (stamp now) xs)"
    unfolding store_inv_def tables ids .
qed

lemma store_inv_new:
  assumes inv: "store_inv xs"
    and none: "find (\<lambda>order. o_table_number order = t \<and> o_is_active order) xs = None"
  shows "store_inv (xs @ [Order_init now (py_max (map o_id xs) 0 + 1) t None None True])"
proof -
  have "py_max (map o_id xs) 0 + 1 \<notin> set (map o_id xs)"
  proof
    assume "py_max (map o_id xs) 0 + 1 \<in> set (map o_id xs)"
    then have "py_max (map o_id xs) 0 + 1 \<le> py_max (map o_id xs) 0"
      by (rule py_max_ge)
    then show False by simp
  qed
  moreover from none have "t \<notin> set (map o_table_number (filter o_is_active xs))"
    by (auto simp: find_None_iff)
  ultimately show ?thesis
    using inv by (simp add: store_inv_def Order_init_def)
qed

lemma reach_inv_save: "store_inv (orders m) \<Longrightarrow> reach_inv (save_orders m)"
  by (auto simp: reach_inv_def save_orders_def)

lemma reach_inv_init: "reach_inv (OrderManager_init now Absent)"
  by (simp add: OrderManager_init_def load_orders_def reach_inv_save store_inv_def)

lemma reach_inv_create:
  assumes inv: "reach_inv m" and res: "create_order now m t = Inr (ord, m')"
  shows "reach_inv m'"
proof (cases "find (\<lambda>order. o_table_number order = t \<and> o_is_active order) (orders m)")
  case None
  with inv have "store_inv
      (orders m @ [Order_init now (py_max (map o_id (orders m)) 0 + 1) t None None True])"
    by (intro store_inv_new) (simp_all add: reach_inv_def)
  then have "reach_inv (save_orders (m\<lparr>orders := orders m @
      [Order_init now (py_max (map o_id (orders m)) 0 + 1) t None None True]\<rparr>))"
    by (intro reach_inv_save) simp
  with res None show ?thesis
    by (auto simp: create_order_def Let_def split: if_splits)
next
  case (Some existing)
  with res inv show ?thesis
    by (auto simp: create_order_def split: if_splits)
qed

lemma reach_inv_add_line: "reach_inv m \<Longrightarrow> reach_inv (add_line m i item q)"
proof (cases "get_order_by_id m i")
  case None
  assume "reach_inv m"
  with None show ?thesis by (simp add: add_line_def)
next
  case (Some ord)
  assume "reach_inv m"
  then have "store_inv (update_order i (\<lambda>ord. Order_add_item ord item q) (orders m))"
    by (simp add: reach_inv_def store_inv_add_item)
  then have "reach_inv (save_orders
      (m\<lparr>orders := update_order i (\<lambda>ord. Order_add_item ord item q) (orders m)\<rparr>))"
    by (intro reach_inv_save) simp
  with Some show ?thesis by (simp add: add_line_def)
qed

lemma reach_inv_close: "reach_inv m \<Longrightarrow> reach_inv (snd (close_order m i))"
proof (cases "get_order_by_id m i")
  case None
  assume "reach_inv m"
  with None show ?thesis by (simp add: close_order_def)
next
  case (Some ord)
  assume "reach_inv m"
  then have inv: "store_inv (update_order i (\<lambda>ord. ord\<lparr>o_is_active := False\<rparr>) (orders m))"
    by (simp add: reach_inv_def store_inv_deactivate)
  let ?m1 = "m\<lparr>orders := update_order i (\<lambda>ord. ord\<lparr>o_is_active := False\<rparr>) (orders m)\<rparr>"
  from inv have "reach_inv (save_orders ?m1)"
    by (intro reach_inv_save) simp
  then have "reach_inv ((save_orders ?m1)\<lparr>orders := filter o_is_active (orders (save_orders ?m1))\<rparr>)"
    by (simp add: reach_inv_def store_inv_filter)
  with Some show ?thesis by (simp add: close_order_def Let_def)
qed

lemma reach_inv_restart: "reach_inv m \<Longrightarrow> reach_inv (OrderManager_init now (orders_file m))"
proof -
  assume "reach_inv m"
  then obtain os where saved: "orders_file m = Content (JList (map Order_to_dict os))"
    and os: "store_inv os"
    by (auto simp: reach_inv_def)
  have "OrderManager_init now (orders_file m) =
      \<lparr>orders = filter o_is_active (map (stamp now) os), orders_file = orders_file m\<rparr>"
    by (simp add: OrderManager_init_def load_orders_def saved load_saved)
  moreover have "store_inv (filter o_is_active (map (stamp now) os))"
    using os by (intro store_inv_filter store_inv_stamp)
  ultimately show ?thesis
    using saved os by (auto simp: reach_inv_def)
qed

lemma reach_inv_step: "reach_inv m \<Longrightarrow> reach_inv (step m op)"
  by (cases op)
    (auto simp: reach_inv_add_line reach_inv_close reach_inv_restart
      split: sum.split dest: reach_inv_create)

lemma reach_inv_run: "reach_inv m \<Longrightarrow> reach_inv (run m ops)"
  unfolding run_def by (induction ops arbitrary: m) (simp_all add: reach_inv_step)

lemma store_inv_count:
  "store_inv os \<Longrightarrow>
     length (filter (\<lambda>order. o_is_active order \<and> o_table_number order = t) os) \<le> 1"
proof -
  assume "store_inv os"
  then have "length (filter (\<lambda>y. o_table_number y = t) (filter o_is_active os)) \<le> 1"
    by (intro distinct_count_le_1) (simp add: store_inv_def)
  moreover have "filter (\<lambda>y. o_table_number y = t) (filter o_is_active os) =
      filter (\<lambda>order. o_is_active order \<and> o_table_number order = t) os"
    by (simp add: conj_commute)
  ultimately show ?thesis by simp
qed

text \<open>
  Claim C1. Start from the first \<^verbatim>\<open>OrderManager()\<close>, built when no data file exists, and run
  any sequence of store operations: creating orders, adding lines, closing orders, and also
  restarting the process on the file the store has written. In the store reached, every
  table has at most one active order.
\<close>

theorem one_active_order_per_table:
  "active_count (run (OrderManager_init now Absent) ops) t \<le> 1"
proof -
  have "reach_inv (run (OrderManager_init now Absent) ops)"
    by (intro reach_inv_run reach_inv_init)
  then have "store_inv (orders (run (OrderManager_init now Absent) ops))"
    by (simp add: reach_inv_def)
  then show ?thesis
    unfolding active_count_def by (rule store_inv_count)
qed

lemma find_None_ids:
  "find (\<lambda>order. o_id order = i) xs = None \<longleftrightarrow> i \<notin> o_id ` set xs"
  by (auto simp: find_None_iff)

lemma find_Some_id: "find (\<lambda>order. o_id order = i) xs = Some x \<Longrightarrow> x \<in> set xs \<and> o_id x = i"
  by (induction xs) (auto split: if_splits)

lemma close_removes_id:
  "list_all o_is_active xs \<Longrightarrow> distinct (map o_id xs) \<Longrightarrow>
     filter o_is_active (update_order i (\<lambda>ord. ord\<lparr>o_is_active := False\<rparr>) xs) =
     filter (\<lambda>x. o_id x \<noteq> i) xs"
proof (induction xs)
  case Nil
  then show ?case by simp
next
  case (Cons x xs)
  show ?case
  proof (cases "o_id x = i")
    case True
    with Cons.prems have "filter (\<lambda>x. o_id x \<noteq> i) xs = xs" "filter o_is_active xs = xs"
      by (auto simp: filter_id_conv list_all_iff image_iff)
    with True show ?thesis by simp
  next
    case False
    with Cons show ?thesis by simp
  qed
qed

lemma close_order_known:
  assumes active: "list_all o_is_active (orders m)" and ids: "distinct (map o_id (orders m))"
    and known: "get_order_by_id m i = Some ord"
  shows "fst (close_order m i) = True"
    and "orders (snd (close_order m i)) = filter (\<lambda>x. o_id x \<noteq> i) (orders m)"
  using assms by (simp_all add: close_order_def Let_def save_orders_def close_removes_id)

text \<open>
  Claim C5. In every store reached from the first start (as for C1): \<^verbatim>\<open>close_order\<close> with an
  id that no order has returns \<^verbatim>\<open>False\<close> and changes nothing; with the id of an order it returns
  \<^verbatim>\<open>True\<close> and the list loses exactly the orders of that id, so the order is no longer in the
  list, \<^verbatim>\<open>get_order_by_id\<close> returns \<^verbatim>\<open>None\<close> for the id, \<^verbatim>\<open>get_active_orders\<close> has no order of
  the id, and a second \<^verbatim>\<open>close_order\<close> with the id returns \<^verbatim>\<open>False\<close>.
\<close>

theorem close_order_removes_order:
  assumes m: "m = run (OrderManager_init now Absent) ops"
  shows "(get_order_by_id m i = None \<longrightarrow> close_order m i = (False, m)) \<and>
     (\<forall>ord. get_order_by_id m i = Some ord \<longrightarrow>
        fst (close_order m i) = True \<and>
        orders (snd (close_order m i)) = filter (\<lambda>x. o_id x \<noteq> i) (orders m) \<and>
        ord \<notin> set (orders (snd (close_order m i))) \<and>
        get_order_by_id (snd (close_order m i)) i = None \<and>
        i \<notin> o_id ` set (get_active_orders (snd (close_order m i))) \<and>
        fst (close_order (snd (close_order m i)) i) = False)"
proof (intro conjI allI impI)
  assume "get_order_by_id m i = None"
  then show "close_order m i = (False, m)"
    by (simp add: close_order_def)
next
  fix ord
  assume known: "get_order_by_id m i = Some ord"
  have active: "list_all o_is_active (orders m)"
    unfolding m by (intro run_active) (simp add: OrderManager_init_def load_orders_active)
  have "reach_inv m"
    unfolding m by (intro reach_inv_run reach_inv_init)
  then have ids: "distinct (map o_id (orders m))"
    by (simp add: reach_inv_def store_inv_def)
  show "fst (close_order m i) = True"
    using active ids known by (rule close_order_known)
  show rest: "orders (snd (close_order m i)) = filter (\<lambda>x. o_id x \<noteq> i) (orders m)"
    using active ids known by (rule close_order_known)
  from known have "o_id ord = i"
    by (auto simp: get_order_by_id_def dest: find_Some_id)
  then show "ord \<notin> set (orders (snd (close_order m i)))"
    by (simp add: rest)
  show gone: "get_order_by_id (snd (close_order m i)) i = None"
    by (auto simp: get_order_by_id_def find_None_ids rest)
  show "i \<notin> o_id ` set (get_active_orders (snd (close_order m i)))"
    by (auto simp: get_active_orders_def rest)
  from gone show "fst (close_order (snd (close_order m i)) i) = False"
    by (simp add: close_order_def)
qed

theorem close_order_removes_order_witness:
  "store_t5 = run (OrderManager_init ''2024-05-01T11:00:00'' Absent)
     [CreateOrder ''2024-05-01T12:00:00'' 5] \<and>
   get_order_by_id store_t5 1 = Some order_t5 \<and>
   fst (close_order store_t5 1) = True \<and>
   orders (snd (close_order store_t5 1)) = [] \<and>
   fst (close_order (snd (close_order store_t5 1)) 1) = False \<and>
   get_order_by_id store_t5 7 = None \<and>
   close_order store_t5 7 = (False, store_t5)"
proof -
  have reached: "store_t5 = run (OrderManager_init ''2024-05-01T11:00:00'' Absent)
      [CreateOrder ''2024-05-01T12:00:00'' 5]"
    by (simp add: store_t5_def fresh_store_def)
  have known: "get_order_by_id store_t5 1 = Some order_t5"
    by (simp add: store_t5_eq get_order_by_id_def order_t5_eq)
  have unknown: "get_order_by_id store_t5 7 = None"
    by (simp add: store_t5_eq get_order_by_id_def order_t5_eq)
  have "filter (\<lambda>x. o_id x \<noteq> 1) (orders store_t5) = []"
    by (simp add: store_t5_eq order_t5_eq)
  with known unknown reached close_order_removes_order [OF reached, of 1]
    close_order_removes_order [OF reached, of 7]
  show ?thesis by simp
qed


section \<open>Properties of the quantity step\<close>

lemma find_update_order:
  "find (\<lambda>order. o_id order = i) xs = Some x \<Longrightarrow> o_id (f x) = i \<Longrightarrow>
     find (\<lambda>order. o_id order = i) (update_order i f xs) = Some (f x)"
  by (induction xs) (auto split: if_splits)

lemma add_line_found:
  assumes found: "get_order_by_id m i = Some x"
  shows "get_order_by_id (add_line m i item q) i = Some (Order_add_item x item q)"
proof -
  from found have "o_id x = i"
    by (auto simp: get_order_by_id_def dest: find_Some_id)
  then have "o_id (Order_add_item x item q) = i"
    by (simp add: Order_add_item_fields)
  with found have "find (\<lambda>order. o_id order = i)
      (update_order i (\<lambda>ord. Order_add_item ord item q) (orders m)) =
      Some (Order_add_item x item q)"
    unfolding get_order_by_id_def by (intro find_update_order)
  with found show ?thesis
    by (simp add: add_line_def get_order_by_id_def save_orders_def)
qed

lemma quantity_world_cancel:
  "process_quantity ascii_int quantity_world (Some str_cancel) =
     Inr (ItemList (Some str_Salaty), set_state quantity_world selecting_menu_item)"
  by (simp add: process_quantity_def back_to_items_def str_cancel_def str_other_quantity_def
      str_back_def quantity_world_def quantity_session_def data_str_def Let_def)

lemma process_quantity_cases:
  "process_quantity py_int w (Some str_other_quantity) = Inr (AskNumber, w) \<and>
   (t \<noteq> str_other_quantity \<and> t \<noteq> str_back \<and> t \<noteq> str_cancel \<and>
    (py_int t = None \<or> (\<exists>q. py_int t = Some q \<and> q \<le> 0)) \<longrightarrow>
      process_quantity py_int w (Some t) = Inr (BadQuantity, w)) \<and>
   ((t = str_back \<or> t = str_cancel) \<and>
    data_str (fsm_data (ses w)) ''current_category'' = Some c \<longrightarrow>
      process_quantity py_int w (Some t) =
        Inr (ItemList (Some c), set_state w selecting_menu_item) \<and>
      order_manager (set_state w selecting_menu_item) = order_manager w \<and>
      menu_manager (set_state w selecting_menu_item) = menu_manager w \<and>
      fsm_data (ses (set_state w selecting_menu_item)) = fsm_data (ses w) \<and>
      fsm_state (ses (set_state w selecting_menu_item)) = Some selecting_menu_item) \<and>
   (t \<noteq> str_other_quantity \<and> t \<noteq> str_back \<and> t \<noteq> str_cancel \<and>
    py_int t = Some q \<and> 0 < q \<and> session_order w = Some ord \<and> session_item w = Some it \<longrightarrow>
      process_quantity py_int w (Some t) =
        Inr (Added (mi_name it) q,
             set_state (w\<lparr>order_manager := add_line (order_manager w) (o_id ord) it q\<rparr>)
               selecting_main_category) \<and>
      get_order_by_id (add_line (order_manager w) (o_id ord) it q) (o_id ord) =
        Some (Order_add_item ord it q)) \<and>
   (t \<noteq> str_other_quantity \<and> t \<noteq> str_back \<and> t \<noteq> str_cancel \<and>
    py_int t = Some q \<and> 0 < q \<and> (session_order w = None \<or> session_item w = None) \<longrightarrow>
      process_quantity py_int w (Some t) = Inr (AddFailed, w))"
proof (intro conjI impI)
  show "process_quantity py_int w (Some str_other_quantity) = Inr (AskNumber, w)"
    by (simp add: process_quantity_def)
next
  assume "t \<noteq> str_other_quantity \<and> t \<noteq> str_back \<and> t \<noteq> str_cancel \<and>
    (py_int t = None \<or> (\<exists>q. py_int t = Some q \<and> q \<le> 0))"
  then show "process_quantity py_int w (Some t) = Inr (BadQuantity, w)"
    by (auto simp: process_quantity_def)
next
  assume bk: "(t = str_back \<or> t = str_cancel) \<and>
    data_str (fsm_data (ses w)) ''current_category'' = Some c"
  have "str_back \<noteq> str_other_quantity" "str_cancel \<noteq> str_other_quantity"
    by (simp_all add: str_back_def str_cancel_def str_other_quantity_def)
  with bk show "process_quantity py_int w (Some t) =
      Inr (ItemList (Some c), set_state w selecting_menu_item)"
    by (auto simp: process_quantity_def back_to_items_def Let_def)
  show "order_manager (set_state w selecting_menu_item) = order_manager w"
    "menu_manager (set_state w selecting_menu_item) = menu_manager w"
    "fsm_data (ses (set_state w selecting_menu_item)) = fsm_data (ses w)"
    "fsm_state (ses (set_state w selecting_menu_item)) = Some selecting_menu_item"
    by (simp_all add: set_state_def)
next
  assume add: "t \<noteq> str_other_quantity \<and> t \<noteq> str_back \<and> t \<noteq> str_cancel \<and>
    py_int t = Some q \<and> 0 < q \<and> session_order w = Some ord \<and> session_item w = Some it"
  then show "process_quantity py_int w (Some t) =
      Inr (Added (mi_name it) q,
           set_state (w\<lparr>order_manager := add_line (order_manager w) (o_id ord) it q\<rparr>)
             selecting_main_category)"
    by (simp add: process_quantity_def add_item_with_quantity_def)
  from add have "get_order_by_id (order_manager w) (o_id ord) = Some ord"
    by (auto simp: session_order_def get_order_by_id_def split: option.splits
        dest: find_Some_id)
  then show "get_order_by_id (add_line (order_manager w) (o_id ord) it q) (o_id ord) =
      Some (Order_add_item ord it q)"
    by (rule add_line_found)
next
  assume "t \<noteq> str_other_quantity \<and> t \<noteq> str_back \<and> t \<noteq> str_cancel \<and>
    py_int t = Some q \<and> 0 < q \<and> (session_order w = None \<or> session_item w = None)"
  then show "process_quantity py_int w (Some t) = Inr (AddFailed, w)"
    by (auto simp: process_quantity_def add_item_with_quantity_def split: option.splits)
qed

lemmas button_defs =
  str_other_quantity_def str_back_def str_cancel_def str_to_main_menu_def str_menu_def
  str_back_to_menu_def str_new_order_def str_active_orders_def str_back_to_tables_def
  str_back_to_orders_def

lemma route_reaches:
  "reaches_quantity_handlers is_command t \<Longrightarrow>
     route_entering_quantity is_command (Some t) =
       (if t = str_back then H_back_to_items else H_process_quantity)"
  by (simp add: reaches_quantity_handlers_def navigation_texts_def route_entering_quantity_def)

lemma process_quantity_back:
  "process_quantity py_int w (Some str_back) = back_to_items w"
  by (simp add: process_quantity_def str_back_def str_other_quantity_def)

lemma dispatch_reaches:
  "reaches_quantity_handlers is_command t \<Longrightarrow>
     dispatch_entering_quantity is_command py_int w (Some t) =
       outcome_of (process_quantity py_int w (Some t))"
  by (simp add: dispatch_entering_quantity_def route_reaches process_quantity_back)

lemma quantity_world_lookups:
  "session_order quantity_world = Some order_t5"
  "session_item quantity_world = Some caesar"
  "data_str (fsm_data (ses quantity_world)) ''current_category'' = Some str_Salaty"
  by (simp_all add: session_order_def session_item_def quantity_world_def quantity_session_def
      data_int_def data_str_def store_t5_eq get_order_by_id_def order_t5_eq get_item_by_id_def
      catalog3_def caesar_def MenuItem_init_def)

lemma button_texts:
  "''abc'' \<noteq> str_other_quantity" "''abc'' \<noteq> str_back" "''abc'' \<noteq> str_cancel"
  "''3'' \<noteq> str_other_quantity" "''3'' \<noteq> str_back" "''3'' \<noteq> str_cancel"
  by (simp_all add: str_other_quantity_def str_back_def str_cancel_def)

lemma example_texts_reach:
  "reaches_quantity_handlers slash_command ''abc''"
  "reaches_quantity_handlers slash_command ''3''"
  "reaches_quantity_handlers slash_command str_back"
  "reaches_quantity_handlers slash_command str_cancel"
  by (simp_all add: reaches_quantity_handlers_def navigation_texts_def slash_command_def
      button_defs)

text \<open>
  Claim C9 says that in the quantity state every input that is no positive integer leaves
  the session state as it is. The cancel button is such an input. No handler registered
  earlier takes it, and \<^verbatim>\<open>process_quantity\<close> answers it by going back to the choice of an item:
  the session leaves the quantity state.
\<close>

theorem cancel_leaves_quantity_state:
  "ascii_int str_cancel = None \<and>
   fsm_state (ses quantity_world) = Some entering_quantity \<and>
   process_quantity ascii_int quantity_world (Some str_cancel) =
     Inr (ItemList (Some str_Salaty), set_state quantity_world selecting_menu_item) \<and>
   fsm_state (ses (set_state quantity_world selecting_menu_item)) = Some selecting_menu_item \<and>
   ses (set_state quantity_world selecting_menu_item) \<noteq> ses quantity_world \<and>
   route_entering_quantity slash_command (Some str_cancel) = H_process_quantity \<and>
   dispatch_entering_quantity slash_command ascii_int quantity_world (Some str_cancel) =
     Answered (ItemList (Some str_Salaty)) (set_state quantity_world selecting_menu_item)"
proof -
  have "ascii_int str_cancel = None"
    by (simp add: ascii_int_def str_cancel_def)
  moreover have "fsm_state (ses quantity_world) = Some entering_quantity"
    by (simp add: quantity_world_def quantity_session_def)
  moreover have "fsm_state (ses (set_state quantity_world selecting_menu_item)) =
      Some selecting_menu_item"
    by (simp add: set_state_def)
  moreover have "ses (set_state quantity_world selecting_menu_item) \<noteq> ses quantity_world"
    by (simp add: set_state_def quantity_world_def quantity_session_def)
  moreover have "route_entering_quantity slash_command (Some str_cancel) = H_process_quantity"
    using route_reaches [OF example_texts_reach(4)]
    by (simp add: str_cancel_def str_back_def)
  moreover have "dispatch_entering_quantity slash_command ascii_int quantity_world
      (Some str_cancel) =
      Answered (ItemList (Some str_Salaty)) (set_state quantity_world selecting_menu_item)"
    unfolding dispatch_reaches [OF example_texts_reach(4)] quantity_world_cancel
    by (simp add: outcome_of_def)
  ultimately show ?thesis
    using quantity_world_cancel by blast
qed

text \<open>
  Claim C9, as the code has it. Take a session in the quantity state and a text that no
  handler registered ahead of the two handlers of that state takes: no \<^verbatim>\<open>/start\<close> or \<^verbatim>\<open>/help\<close>
  command and none of the seven navigation buttons. The button for another quantity is
  answered by the request to type a number, and any other text that is neither the back nor
  the cancel button and is no positive integer by a new request for a positive number; both
  leave the session and the stores as they are. The back and cancel buttons, in a session
  that holds its category, lead back to the choice of an item and leave the stores and the
  session data as they are. A positive integer adds that quantity of the session's item to
  the session's order and leads on to the choice of a main category when the session's order
  and item both exist; when one of them does not, the answer is an error message and
  nothing changes.
\<close>

theorem quantity_message_effect:
  "fsm_state (ses w) = Some entering_quantity \<Longrightarrow> reaches_quantity_handlers is_command t \<Longrightarrow>
   (t = str_other_quantity \<longrightarrow>
      dispatch_entering_quantity is_command py_int w (Some t) = Answered AskNumber w) \<and>
   (t \<noteq> str_other_quantity \<and> t \<noteq> str_back \<and> t \<noteq> str_cancel \<and>
    (py_int t = None \<or> (\<exists>q. py_int t = Some q \<and> q \<le> 0)) \<longrightarrow>
      dispatch_entering_quantity is_command py_int w (Some t) = Answered BadQuantity w) \<and>
   ((t = str_back \<or> t = str_cancel) \<and>
    data_str (fsm_data (ses w)) ''current_category'' = Some c \<longrightarrow>
      dispatch_entering_quantity is_command py_int w (Some t) =
        Answered (ItemList (Some c)) (set_state w selecting_menu_item) \<and>
      order_manager (set_state w selecting_menu_item) = order_manager w \<and>
      menu_manager (set_state w selecting_menu_item) = menu_manager w \<and>
      fsm_data (ses (set_state w selecting_menu_item)) = fsm_data (ses w) \<and>
      fsm_state (ses (set_state w selecting_menu_item)) = Some selecting_menu_item) \<and>
   (t \<noteq> str_other_quantity \<and> t \<noteq> str_back \<and> t \<noteq> str_cancel \<and>
    py_int t = Some q \<and> 0 < q \<and> session_order w = Some ord \<and> session_item w = Some it \<longrightarrow>
      dispatch_entering_quantity is_command py_int w (Some t) =
        Answered (Added (mi_name it) q)
          (set_state (w\<lparr>order_manager := add_line (order_manager w) (o_id ord) it q\<rparr>)
             selecting_main_category) \<and>
      get_order_by_id (add_line (order_manager w) (o_id ord) it q) (o_id ord) =
        Some (Order_add_item ord it q)) \<and>
   (t \<noteq> str_other_quantity \<and> t \<noteq> str_back \<and> t \<noteq> str_cancel \<and>
    py_int t = Some q \<and> 0 < q \<and> (session_order w = None \<or> session_item w = None) \<longrightarrow>
      dispatch_entering_quantity is_command py_int w (Some t) = Answered AddFailed w)"
proof -
  assume reach: "reaches_quantity_handlers is_command t"
  have disp: "dispatch_entering_quantity is_command py_int w (Some t) =
      outcome_of (process_quantity py_int w (Some t))"
    using reach by (rule dispatch_reaches)
  note cases = process_quantity_cases [of py_int w t c q ord it]
  show ?thesis
  proof (intro conjI impI)
    assume "t = str_other_quantity"
    with cases have "process_quantity py_int w (Some t) = Inr (AskNumber, w)"
      by simp
    then show "dispatch_entering_quantity is_command py_int w (Some t) = Answered AskNumber w"
      by (simp add: disp outcome_of_def)
  next
    assume "t \<noteq> str_other_quantity \<and> t \<noteq> str_back \<and> t \<noteq> str_cancel \<and>
      (py_int t = None \<or> (\<exists>q. py_int t = Some q \<and> q \<le> 0))"
    with cases have "process_quantity py_int w (Some t) = Inr (BadQuantity, w)"
      by blast
    then show "dispatch_entering_quantity is_command py_int w (Some t) = Answered BadQuantity w"
      by (simp add: disp outcome_of_def)
  next
    assume bk: "(t = str_back \<or> t = str_cancel) \<and>
      data_str (fsm_data (ses w)) ''current_category'' = Some c"
    with cases have "process_quantity py_int w (Some t) =
        Inr (ItemList (Some c), set_state w selecting_menu_item)"
      by blast
    then show "dispatch_entering_quantity is_command py_int w (Some t) =
        Answered (ItemList (Some c)) (set_state w selecting_menu_item)"
      by (simp add: disp outcome_of_def)
    show "order_manager (set_state w selecting_menu_item) = order_manager w"
      "menu_manager (set_state w selecting_menu_item) = menu_manager w"
      "fsm_data (ses (set_state w selecting_menu_item)) = fsm_data (ses w)"
      "fsm_state (ses (set_state w selecting_menu_item)) = Some selecting_menu_item"
      by (simp_all add: set_state_def)
  next
    assume add: "t \<noteq> str_other_quantity \<and> t \<noteq> str_back \<and> t \<noteq> str_cancel \<and>
      py_int t = Some q \<and> 0 < q \<and> session_order w = Some ord \<and> session_item w = Some it"
    with cases have res: "process_quantity py_int w (Some t) =
        Inr (Added (mi_name it) q,
             set_state (w\<lparr>order_manager := add_line (order_manager w) (o_id ord) it q\<rparr>)
               selecting_main_category)"
      and found: "get_order_by_id (add_line (order_manager w) (o_id ord) it q) (o_id ord) =
        Some (Order_add_item ord it q)"
      by blast+
    from res show "dispatch_entering_quantity is_command py_int w (Some t) =
        Answered (Added (mi_name it) q)
          (set_state (w\<lparr>order_manager := add_line (order_manager w) (o_id ord) it q\<rparr>)
             selecting_main_category)"
      by (simp add: disp outcome_of_def)
    from found show "get_order_by_id (add_line (order_manager w) (o_id ord) it q) (o_id ord) =
        Some (Order_add_item ord it q)" .
  next
    assume "t \<noteq> str_other_quantity \<and> t \<noteq> str_back \<and> t \<noteq> str_cancel \<and>
      py_int t = Some q \<and> 0 < q \<and> (session_order w = None \<or> session_item w = None)"
    with cases have "process_quantity py_int w (Some t) = Inr (AddFailed, w)"
      by blast
    then show "dispatch_entering_quantity is_command py_int w (Some t) = Answered AddFailed w"
      by (simp add: disp outcome_of_def)
  qed
qed

theorem quantity_message_effect_witness:
  "fsm_state (ses quantity_world) = Some entering_quantity \<and>
   reaches_quantity_handlers slash_command ''abc'' \<and>
   ascii_int ''abc'' = None \<and>
   dispatch_entering_quantity slash_command ascii_int quantity_world (Some ''abc'') =
     Answered BadQuantity quantity_world \<and>
   reaches_quantity_handlers slash_command str_back \<and>
   data_str (fsm_data (ses quantity_world)) ''current_category'' = Some str_Salaty \<and>
   dispatch_entering_quantity slash_command ascii_int quantity_world (Some str_back) =
     Answered (ItemList (Some str_Salaty)) (set_state quantity_world selecting_menu_item) \<and>
   reaches_quantity_handlers slash_command ''3'' \<and>
   ascii_int ''3'' = Some 3 \<and>
   session_order quantity_world = Some order_t5 \<and>
   session_item quantity_world = Some caesar \<and>
   dispatch_entering_quantity slash_command ascii_int quantity_world (Some ''3'') =
     Answered (Added (mi_name caesar) 3)
       (set_state
          (quantity_world\<lparr>order_manager :=
             add_line (order_manager quantity_world) (o_id order_t5) caesar 3\<rparr>)
          selecting_main_category) \<and>
   get_order_by_id (add_line (order_manager quantity_world) (o_id order_t5) caesar 3)
       (o_id order_t5) =
     Some (Order_add_item order_t5 caesar 3) \<and>
   o_items (Order_add_item order_t5 caesar 3) = [\<lparr>oi_menu_item = caesar, oi_quantity = 3\<rparr>] \<and>
   session_item (quantity_world\<lparr>menu_manager := catalog0\<rparr>) = None \<and>
   dispatch_entering_quantity slash_command ascii_int
       (quantity_world\<lparr>menu_manager := catalog0\<rparr>) (Some ''3'') =
     Answered AddFailed (quantity_world\<lparr>menu_manager := catalog0\<rparr>)"
proof -
  have state: "fsm_state (ses quantity_world) = Some entering_quantity"
    "fsm_state (ses (quantity_world\<lparr>menu_manager := catalog0\<rparr>)) = Some entering_quantity"
    by (simp_all add: quantity_world_def quantity_session_def)
  have abc: "ascii_int ''abc'' = None"
    by (simp add: ascii_int_def)
  have three: "ascii_int ''3'' = Some 3" "(0::int) < 3"
    by (simp_all add: ascii_int_def)
  have items: "o_items (Order_add_item order_t5 caesar 3) =
      [\<lparr>oi_menu_item = caesar, oi_quantity = 3\<rparr>]"
    by (simp add: Order_add_item_def order_t5_eq)
  have gone: "session_item (quantity_world\<lparr>menu_manager := catalog0\<rparr>) = None"
    by (simp add: session_item_def quantity_world_def quantity_session_def data_int_def
        get_item_by_id_def catalog0_def)
  from abc button_texts
    quantity_message_effect [OF state(1) example_texts_reach(1), where py_int = ascii_int]
  have bad: "dispatch_entering_quantity slash_command ascii_int quantity_world (Some ''abc'') =
      Answered BadQuantity quantity_world"
    by blast
  from quantity_world_lookups
    quantity_message_effect [OF state(1) example_texts_reach(3), where py_int = ascii_int
      and c = str_Salaty]
  have return: "dispatch_entering_quantity slash_command ascii_int quantity_world
      (Some str_back) =
      Answered (ItemList (Some str_Salaty)) (set_state quantity_world selecting_menu_item)"
    by blast
  from three button_texts quantity_world_lookups
    quantity_message_effect [OF state(1) example_texts_reach(2), where py_int = ascii_int
      and q = 3 and ord = order_t5 and it = caesar]
  have added: "dispatch_entering_quantity slash_command ascii_int quantity_world (Some ''3'') =
      Answered (Added (mi_name caesar) 3)
        (set_state
           (quantity_world\<lparr>order_manager :=
              add_line (order_manager quantity_world) (o_id order_t5) caesar 3\<rparr>)
           selecting_main_category) \<and>
    get_order_by_id (add_line (order_manager quantity_world) (o_id order_t5) caesar 3)
        (o_id order_t5) =
      Some (Order_add_item order_t5 caesar 3)"
    by blast
  from three button_texts gone
    quantity_message_effect [OF state(2) example_texts_reach(2), where py_int = ascii_int
      and q = 3]
  have failed: "dispatch_entering_quantity slash_command ascii_int
      (quantity_world\<lparr>menu_manager := catalog0\<rparr>) (Some ''3'') =
      Answered AddFailed (quantity_world\<lparr>menu_manager := catalog0\<rparr>)"
    by blast
  from state(1) example_texts_reach abc three items gone bad return added failed
    quantity_world_lookups
  show ?thesis by blast
qed

end
